theory Spec2Isabelle
  imports Complex_Main
begin

section \<open>Adversarial patch training loop (train\_patch.py)\<close>

text \<open>
  A shallow embedding of \<^verbatim>\<open>PatchTrainer\<close> from \<^verbatim>\<open>src/train_patch.py\<close>.
  A tensor is its shape together with its entries in row-major order. An entry is a
  floating-point value: finite (taken as the real number it denotes; rounding is not
  modelled), an infinity, or NaN. Scalars that the trainer only adds and compares (the loss
  terms, the learning rate, the configured weights) are taken in their finite case, as
  real numbers.
  Everything the trainer calls but does not define (the data loader, the patch transformer
  and applier, the detector, the loss modules, autograd, the Adam update rule, the random
  number generator, image decoding) is a field of the record \<open>env\<close>.
\<close>

subsection \<open>Tensors and parameters\<close>

datatype fl = Fin real | PosInf | NegInf | NaN

record tensor =
  shape :: "nat list"
  entries :: "fl list"

text \<open>Addition of two entries: NaN is absorbing, and opposite infinities give NaN.\<close>

fun fl_add :: "fl \<Rightarrow> fl \<Rightarrow> fl" where
  "fl_add NaN y = NaN"
| "fl_add x NaN = NaN"
| "fl_add (Fin a) (Fin b) = Fin (a + b)"
| "fl_add PosInf NegInf = NaN"
| "fl_add NegInf PosInf = NaN"
| "fl_add PosInf y = PosInf"
| "fl_add x PosInf = PosInf"
| "fl_add NegInf y = NegInf"
| "fl_add x NegInf = NegInf"

text \<open>\<^verbatim>\<open>clamp\<close> of one entry to the interval from \<open>lo\<close> to \<open>hi\<close>: a finite value is cut off at
  the bounds, an infinity goes to the nearer bound, and NaN stays NaN.\<close>

fun fl_clamp :: "real \<Rightarrow> real \<Rightarrow> fl \<Rightarrow> fl" where
  "fl_clamp lo hi (Fin x) = Fin (min (max x lo) hi)"
| "fl_clamp lo hi PosInf = Fin hi"
| "fl_clamp lo hi NegInf = Fin lo"
| "fl_clamp lo hi NaN = NaN"

fun fl_in_unit :: "fl \<Rightarrow> bool" where
  "fl_in_unit (Fin x) = (0 \<le> x \<and> x \<le> 1)"
| "fl_in_unit x = False"

text \<open>A leaf tensor as autograd sees it: \<^verbatim>\<open>.data\<close>, \<^verbatim>\<open>.requires_grad\<close>, \<^verbatim>\<open>.grad\<close>.\<close>

record param =
  data :: tensor
  requires_grad :: bool
  grad :: "tensor option"

definition tensor_add :: "tensor \<Rightarrow> tensor \<Rightarrow> tensor" where
  "tensor_add a b = a\<lparr>entries := map2 fl_add (entries a) (entries b)\<rparr>"

text \<open>\<^verbatim>\<open>torch.full(shape, v)\<close>.\<close>

definition torch_full :: "nat list \<Rightarrow> fl \<Rightarrow> tensor" where
  "torch_full shp v = \<lparr>shape = shp, entries = replicate (prod_list shp) v\<rparr>"

text \<open>\<^verbatim>\<open>t.clamp_(lo, hi)\<close>: every entry is replaced by its clamp.\<close>

definition clamp_inplace :: "real \<Rightarrow> real \<Rightarrow> tensor \<Rightarrow> tensor" where
  "clamp_inplace lo hi t = t\<lparr>entries := map (fl_clamp lo hi) (entries t)\<rparr>"

text \<open>\<^verbatim>\<open>torch.mean\<close> of a one-dimensional tensor (the loader never yields an empty batch).\<close>

definition torch_mean :: "real list \<Rightarrow> real" where
  "torch_mean xs = sum_list xs / real (length xs)"

definition in_unit_range :: "tensor \<Rightarrow> bool" where
  "in_unit_range t = list_all fl_in_unit (entries t)"

text \<open>Every entry that is a number lies in the unit interval.\<close>

definition in_unit_range_or_nan :: "tensor \<Rightarrow> bool" where
  "in_unit_range_or_nan t = list_all (\<lambda>x. x = NaN \<or> fl_in_unit x) (entries t)"

definition has_nan :: "tensor \<Rightarrow> bool" where
  "has_nan t = (NaN \<in> set (entries t))"

subsection \<open>Configuration, errors, effects\<close>

text \<open>The fields of \<^verbatim>\<open>cfg\<close> that \<^verbatim>\<open>train\<close> reads. \<^verbatim>\<open>patch_size\<close> is kept as the pair it is
  in the configuration; \<^verbatim>\<open>use_amp\<close> only changes the floating-point precision and is left out.\<close>

record cfg =
  log_dir :: string
  patch_name :: string
  debug_mode :: bool
  loss_target :: string
  patch_src :: string
  patch_size :: "nat \<times> nat"
  start_lr :: real
  n_epochs :: nat
  min_tv_loss :: real
  nps_mult :: real
  tv_mult :: real
  model_in_sz :: "nat \<times> nat"
  transform_patches :: bool
  rotate_patches :: bool

datatype error =
    NotImplementedError string
  | FileNotFoundError string
  | UnboundLocalError
  | IndexError
  | RuntimeError
  | ZeroDivisionError

text \<open>What the run leaves outside the process: directories, files, and the records sent to
  the tensorboard writer. \<^verbatim>\<open>print\<close> and the progress bar are not recorded.\<close>

datatype event =
    MakeDirs string
  | DumpJson string
  | SaveDebugImg string
  | AddScalar string real nat
  | AddImage string tensor nat
  | SavePatch string tensor

subsection \<open>Strings and paths\<close>

definition digit_char :: "nat \<Rightarrow> char" where
  "digit_char d = ''0123456789'' ! d"

text \<open>The decimal numeral that an f-string prints for a non-negative \<^verbatim>\<open>int\<close>.\<close>

function str_nat :: "nat \<Rightarrow> string" where
  "str_nat n = (if n < 10 then [digit_char n] else str_nat (n div 10) @ [digit_char (n mod 10)])"
  by pat_completeness auto
termination
  by (relation "measure id") auto

text \<open>\<^verbatim>\<open>posixpath.join(a, b)\<close> for two components.\<close>

definition osp_join :: "string \<Rightarrow> string \<Rightarrow> string" where
  "osp_join a b =
     (if b \<noteq> [] \<and> hd b = CHR ''/'' then b
      else if a = [] \<or> last a = CHR ''/'' then a @ b
      else a @ ''/'' @ b)"

text \<open>The f-string \<^verbatim>\<open>f"{self.cfg.patch_name}_epoch_{epoch}.jpg"\<close>.\<close>

definition patch_file_name :: "string \<Rightarrow> nat \<Rightarrow> string" where
  "patch_file_name name epoch = name @ ''_epoch_'' @ str_nat epoch @ ''.jpg''"

subsection \<open>External collaborators\<close>

record adam_state =
  step_count :: nat
  exp_avg :: tensor
  exp_avg_sq :: tensor
  max_exp_avg_sq :: tensor

record env =
  strftime :: string
    \<comment> \<open>\<^verbatim>\<open>time.strftime("%Y%m%d-%H%M%S")\<close> at construction\<close>
  loader_len :: nat
    \<comment> \<open>\<^verbatim>\<open>len(self.train_loader)\<close>\<close>
  loader_imgs :: "nat \<Rightarrow> nat \<Rightarrow> tensor"
    \<comment> \<open>image batch number \<open>i\<close> of epoch \<open>e\<close> (the loader reshuffles every epoch)\<close>
  loader_labs :: "nat \<Rightarrow> nat \<Rightarrow> tensor"
  patch_transformer :: "nat \<Rightarrow> nat \<Rightarrow> tensor \<Rightarrow> tensor \<Rightarrow> nat \<times> nat \<Rightarrow> bool \<Rightarrow> bool \<Rightarrow> tensor"
    \<comment> \<open>the first two arguments (epoch, batch index) select its random draws\<close>
  patch_applier :: "tensor \<Rightarrow> tensor \<Rightarrow> tensor"
  interpolate :: "tensor \<Rightarrow> nat \<times> nat \<Rightarrow> tensor"
  detector :: "tensor list \<Rightarrow> tensor \<Rightarrow> tensor"
    \<comment> \<open>\<^verbatim>\<open>self.model(x)[0]\<close> as a function of the detector's parameter values\<close>
  prob_extractor :: "(real \<Rightarrow> real \<Rightarrow> real) \<Rightarrow> tensor \<Rightarrow> real list"
    \<comment> \<open>\<^verbatim>\<open>MaxProbExtractor\<close>, which reads \<^verbatim>\<open>cfg.loss_target\<close>; one value per image\<close>
  self_nps_loss :: "tensor \<Rightarrow> real"
  self_tv_loss :: "tensor \<Rightarrow> real"
  autograd :: "(tensor \<Rightarrow> real) \<Rightarrow> tensor \<Rightarrow> tensor"
    \<comment> \<open>the gradient of a scalar function of one leaf at the leaf's current value\<close>
  adam_update :: "real \<Rightarrow> adam_state option \<Rightarrow> tensor \<Rightarrow> tensor \<Rightarrow> adam_state \<times> tensor"
    \<comment> \<open>Adam (amsgrad) for one tensor: learning rate, state, gradient, value\<close>
  torch_rand :: "nat list \<Rightarrow> tensor"
  image_open :: "string \<Rightarrow> tensor option"
    \<comment> \<open>\<^verbatim>\<open>Image.open(path).convert('RGB')\<close>; \<open>None\<close> when the file cannot be opened\<close>
  resized_pixels :: "tensor \<Rightarrow> nat \<Rightarrow> nat \<Rightarrow> fl list"
    \<comment> \<open>the entries of \<^verbatim>\<open>ToTensor()(Resize((h, w))(img))\<close>\<close>

subsection \<open>Loss target and initial patch\<close>

text \<open>The \<^verbatim>\<open>if/elif/else\<close> chain that replaces \<^verbatim>\<open>cfg.loss_target\<close> by a function of the
  objectness and the class score, or raises.\<close>

definition fix_loss_target :: "string \<Rightarrow> error + (real \<Rightarrow> real \<Rightarrow> real)" where
  "fix_loss_target lt =
     (if lt = ''obj'' then Inr (\<lambda>obj cls. obj)
      else if lt = ''cls'' then Inr (\<lambda>obj cls. cls)
      else if lt = ''obj * cls'' then Inr (\<lambda>obj cls. obj * cls)
      else Inl (NotImplementedError (''Loss target '' @ lt @ '' not been implemented'')))"

text \<open>\<^verbatim>\<open>generate_patch\<close> unpacks \<^verbatim>\<open>p_w, p_h = self.cfg.patch_size\<close>; with any other
  \<^verbatim>\<open>patch_type\<close> the local \<^verbatim>\<open>adv_patch_cpu\<close> is unbound at the \<^verbatim>\<open>return\<close>.\<close>

definition generate_patch :: "cfg \<Rightarrow> env \<Rightarrow> string \<Rightarrow> error + tensor" where
  "generate_patch c e patch_type =
     (case patch_size c of (p_w, p_h) \<Rightarrow>
        if patch_type = ''gray'' then Inr (torch_full [3, p_h, p_w] (Fin (1 / 2)))
        else if patch_type = ''random'' then Inr (torch_rand e [3, p_h, p_w])
        else Inl UnboundLocalError)"

text \<open>\<^verbatim>\<open>read_image\<close> hands \<^verbatim>\<open>self.cfg.patch_size\<close> unchanged to \<^verbatim>\<open>transforms.Resize\<close>, which reads
  a pair as (height, width); \<^verbatim>\<open>ToTensor\<close> returns channels \<open>\<times>\<close> height \<open>\<times>\<close> width.\<close>

definition read_image :: "cfg \<Rightarrow> env \<Rightarrow> string \<Rightarrow> error + tensor" where
  "read_image c e path =
     (case image_open e path of
        None \<Rightarrow> Inl (FileNotFoundError path)
      | Some patch_img \<Rightarrow>
          (case patch_size c of (h, w) \<Rightarrow>
             Inr \<lparr>shape = [3, h, w], entries = resized_pixels e patch_img h w\<rparr>))"

text \<open>The three-way choice at the start of \<^verbatim>\<open>train\<close>.\<close>

definition init_patch :: "cfg \<Rightarrow> env \<Rightarrow> error + tensor" where
  "init_patch c e =
     (if patch_src c = ''gray'' then generate_patch c e ''gray''
      else if patch_src c = ''random'' then generate_patch c e ''random''
      else read_image c e (patch_src c))"

subsection \<open>Run state, optimizer and scheduler\<close>

text \<open>The tensors an optimizer can hold a reference to.\<close>

datatype tensor_ref = ModelParam nat | AdvPatch

record optimizer =
  opt_params :: "tensor_ref list"
  lr :: real
  opt_state :: "(tensor_ref \<times> adam_state) list"

record plateau =
  best :: "real option"
  num_bad_epochs :: nat
  patience :: nat

record world =
  w_model :: "param list"
  w_effects :: "event list"

record run_state =
  model :: "param list"
  effects :: "event list"
  adv_patch_cpu :: param
  optimizer :: optimizer
  scheduler :: plateau
  ep_loss :: real

datatype outcome =
    Raised error world
  | Raised_in_loop error run_state
  | Returned run_state

fun deref :: "run_state \<Rightarrow> tensor_ref \<Rightarrow> param option" where
  "deref st AdvPatch = Some (adv_patch_cpu st)"
| "deref st (ModelParam k) = (if k < length (model st) then Some (model st ! k) else None)"

fun assign :: "tensor_ref \<Rightarrow> param \<Rightarrow> run_state \<Rightarrow> run_state" where
  "assign AdvPatch q st = st\<lparr>adv_patch_cpu := q\<rparr>"
| "assign (ModelParam k) q st = st\<lparr>model := (model st)[k := q]\<rparr>"

text \<open>\<^verbatim>\<open>optimizer.step()\<close>: every tensor of the optimizer's parameter list that has a gradient
  is updated by the Adam rule; no other tensor is touched.\<close>

definition step_param :: "env \<Rightarrow> tensor_ref \<Rightarrow> run_state \<Rightarrow> run_state" where
  "step_param e r st =
     (case deref st r of
        None \<Rightarrow> st
      | Some q \<Rightarrow>
          (case grad q of
             None \<Rightarrow> st
           | Some g \<Rightarrow>
               (case adam_update e (lr (optimizer st)) (map_of (opt_state (optimizer st)) r) g (data q) of
                  (s', d') \<Rightarrow>
                    assign r (q\<lparr>data := d'\<rparr>)
                      (st\<lparr>optimizer := (optimizer st)\<lparr>opt_state :=
                         (r, s') # filter (\<lambda>x. fst x \<noteq> r) (opt_state (optimizer st))\<rparr>\<rparr>))))"

definition optimizer_step :: "env \<Rightarrow> run_state \<Rightarrow> run_state" where
  "optimizer_step e st = fold (step_param e) (opt_params (optimizer st)) st"

text \<open>\<^verbatim>\<open>optimizer.zero_grad(set_to_none=True)\<close>.\<close>

definition zero_grad :: "run_state \<Rightarrow> run_state" where
  "zero_grad st =
     fold (\<lambda>r s. case deref s r of None \<Rightarrow> s | Some q \<Rightarrow> assign r (q\<lparr>grad := None\<rparr>) s)
       (opt_params (optimizer st)) st"

text \<open>\<^verbatim>\<open>loss.backward()\<close>: every leaf that requires a gradient accumulates the gradient of the
  loss with respect to itself; leaves that do not are left alone. The loss is given as a
  function of the detector's parameter values and of the patch.\<close>

definition accumulate :: "param \<Rightarrow> tensor \<Rightarrow> param" where
  "accumulate q g = q\<lparr>grad := Some (case grad q of None \<Rightarrow> g | Some g0 \<Rightarrow> tensor_add g0 g)\<rparr>"

definition backward :: "env \<Rightarrow> (tensor list \<Rightarrow> tensor \<Rightarrow> real) \<Rightarrow> run_state \<Rightarrow> run_state" where
  "backward e f st =
     (let ws = map data (model st); p = data (adv_patch_cpu st)
      in st\<lparr>model :=
              map (\<lambda>(k, q). if requires_grad q
                             then accumulate q (autograd e (\<lambda>d. f (ws[k := d]) p) (data q))
                             else q)
                (enumerate 0 (model st)),
            adv_patch_cpu :=
              (if requires_grad (adv_patch_cpu st)
               then accumulate (adv_patch_cpu st) (autograd e (\<lambda>d. f ws d) p)
               else adv_patch_cpu st)\<rparr>)"

text \<open>\<^verbatim>\<open>optim.lr_scheduler.ReduceLROnPlateau(optimizer, 'min', patience=50)\<close>: the source gives
  the mode and the patience and leaves the library's defaults for the rest, which are the
  factor 0.1, the relative threshold 0.0001, no cooldown, the minimal rate 0, and
  \<^verbatim>\<open>eps\<close> = 0.00000001. \<open>best\<close> is \<open>None\<close> while it is the initial infinity.

  A value is better than the best one so far when it is below it by more than the
  threshold.\<close>

definition is_better :: "real \<Rightarrow> real option \<Rightarrow> bool" where
  "is_better a b = (case b of None \<Rightarrow> True | Some b' \<Rightarrow> a < b' * (1 - 1 / 10000))"

text \<open>The rate is multiplied by the factor, and the new rate is kept only when it is
  smaller than the old one by more than \<^verbatim>\<open>eps\<close>.\<close>

definition reduce_lr :: "real \<Rightarrow> real" where
  "reduce_lr old_lr =
     (let new_lr = max (old_lr * (1 / 10)) 0
      in if old_lr - new_lr > 1 / 100000000 then new_lr else old_lr)"

text \<open>\<^verbatim>\<open>scheduler.step(metrics)\<close>: record an improvement or count a bad epoch, and when the
  count exceeds the patience reduce the rate and start a new count.\<close>

definition scheduler_step :: "real \<Rightarrow> plateau \<times> real \<Rightarrow> plateau \<times> real" where
  "scheduler_step metric = (\<lambda>(s, rate).
     (let s1 = (if is_better metric (best s) then s\<lparr>best := Some metric, num_bad_epochs := 0\<rparr>
                else s\<lparr>num_bad_epochs := num_bad_epochs s + 1\<rparr>)
      in if patience s1 < num_bad_epochs s1
         then (s1\<lparr>num_bad_epochs := 0\<rparr>, reduce_lr rate)
         else (s1, rate)))"

text \<open>\<^verbatim>\<open>autograd.set_detect_anomaly(True)\<close> makes \<^verbatim>\<open>backward\<close> raise \<^verbatim>\<open>RuntimeError\<close> when a
  backward function returns NaN. Of these functions the model has the last ones, which
  return the gradients of the leaves.\<close>

definition backward_anomaly :: "env \<Rightarrow> (tensor list \<Rightarrow> tensor \<Rightarrow> real) \<Rightarrow> run_state \<Rightarrow> bool" where
  "backward_anomaly e f st =
     (let ws = map data (model st); p = data (adv_patch_cpu st)
      in (requires_grad (adv_patch_cpu st) \<and> has_nan (autograd e (\<lambda>d. f ws d) p))
         \<or> list_ex (\<lambda>(k, q). requires_grad q \<and> has_nan (autograd e (\<lambda>d. f (ws[k := d]) p) (data q)))
              (enumerate 0 (model st)))"

subsection \<open>One batch\<close>

text \<open>The loss components of one batch, under the names of the locals of \<^verbatim>\<open>train\<close>. \<open>nps\<close>
  and \<open>tv\<close> are \<open>None\<close> when the loss module is not called and the constant tensor
  \<^verbatim>\<open>torch.tensor([0])\<close> stands in its place.\<close>

record loss_terms =
  max_prob :: "real list"
  nps :: "real option"
  tv :: "real option"
  nps_loss :: real
  tv_loss :: real
  det_loss :: real
  loss :: real

definition tensor_value :: "real option \<Rightarrow> real" where
  "tensor_value x = (case x of None \<Rightarrow> 0 | Some v \<Rightarrow> v)"

text \<open>Transform the patch for every label, paste it on the images, resize to the detector's
  input size.\<close>

definition patched_batch :: "cfg \<Rightarrow> env \<Rightarrow> nat \<Rightarrow> nat \<Rightarrow> tensor \<Rightarrow> tensor" where
  "patched_batch c e epoch i_batch adv_patch =
     (let adv_batch_t = patch_transformer e epoch i_batch adv_patch (loader_labs e epoch i_batch)
                          (model_in_sz c) (transform_patches c) (rotate_patches c);
          p_img_batch = patch_applier e (loader_imgs e epoch i_batch) adv_batch_t
      in interpolate e p_img_batch (model_in_sz c))"

definition forward_losses ::
  "cfg \<Rightarrow> env \<Rightarrow> (real \<Rightarrow> real \<Rightarrow> real) \<Rightarrow> nat \<Rightarrow> nat \<Rightarrow> tensor list \<Rightarrow> tensor \<Rightarrow> loss_terms" where
  "forward_losses c e target epoch i_batch weights adv_patch =
     (let p_img_batch = patched_batch c e epoch i_batch adv_patch;
          output = detector e weights p_img_batch;
          max_prob' = prob_extractor e target output;
          nps' = (if nps_mult c \<noteq> 0 then Some (self_nps_loss e adv_patch) else None);
          tv' = (if tv_mult c \<noteq> 0 then Some (self_tv_loss e adv_patch) else None);
          nps_loss' = tensor_value nps' * nps_mult c;
          tv_loss' = max (tensor_value tv' * tv_mult c) (min_tv_loss c);
          det_loss' = torch_mean max_prob'
      in \<lparr>max_prob = max_prob', nps = nps', tv = tv', nps_loss = nps_loss', tv_loss = tv_loss',
          det_loss = det_loss', loss = det_loss' + nps_loss' + tv_loss'\<rparr>)"

text \<open>The scalar \<^verbatim>\<open>loss\<close> on which \<^verbatim>\<open>backward\<close> is called, as a function of the leaves.\<close>

definition batch_loss ::
  "cfg \<Rightarrow> env \<Rightarrow> (real \<Rightarrow> real \<Rightarrow> real) \<Rightarrow> nat \<Rightarrow> nat \<Rightarrow> tensor list \<Rightarrow> tensor \<Rightarrow> real" where
  "batch_loss c e target epoch i_batch weights adv_patch =
     loss (forward_losses c e target epoch i_batch weights adv_patch)"

text \<open>\<^verbatim>\<open>p_img_batch[1, :, :, ]\<close> needs a second image in the batch.\<close>

definition has_index_1 :: "tensor \<Rightarrow> bool" where
  "has_index_1 t = (case shape t of [] \<Rightarrow> False | n # _ \<Rightarrow> 1 < n)"

text \<open>\<^verbatim>\<open>osp.join(self.cfg.log_dir, "patch_applied_imgs", f"b_{i_batch}.jpg")\<close>.\<close>

definition debug_img_path :: "cfg \<Rightarrow> nat \<Rightarrow> string" where
  "debug_img_path c i_batch =
     osp_join (osp_join (log_dir c) ''patch_applied_imgs'') (''b_'' @ str_nat i_batch @ ''.jpg'')"

text \<open>The writer calls under \<^verbatim>\<open>if i_batch % 15 == 0\<close>, in the order of the source.\<close>

definition emit_metrics :: "env \<Rightarrow> nat \<Rightarrow> nat \<Rightarrow> loss_terms \<Rightarrow> run_state \<Rightarrow> event list" where
  "emit_metrics e epoch i_batch L st =
     (let iteration = loader_len e * epoch + i_batch
      in [AddScalar ''total_loss'' (loss L) iteration,
          AddScalar ''loss/det_loss'' (det_loss L) iteration,
          AddScalar ''loss/nps_loss'' (nps_loss L) iteration,
          AddScalar ''loss/tv_loss'' (tv_loss L) iteration,
          AddScalar ''misc/epoch'' (real epoch) iteration,
          AddScalar ''misc/learning_rate'' (lr (optimizer st)) iteration,
          AddImage ''patch'' (data (adv_patch_cpu st)) iteration])"

text \<open>\<^verbatim>\<open>optimizer.step(); optimizer.zero_grad(set_to_none=True); adv_patch_cpu.data.clamp_(0, 1)\<close>.\<close>

definition update_patch :: "env \<Rightarrow> run_state \<Rightarrow> run_state" where
  "update_patch e st =
     (let st1 = zero_grad (optimizer_step e st)
      in st1\<lparr>adv_patch_cpu :=
               (adv_patch_cpu st1)\<lparr>data := clamp_inplace 0 1 (data (adv_patch_cpu st1))\<rparr>\<rparr>)"

text \<open>The body of the loop over the batches of one epoch. Anomaly detection is switched on
  in debug mode only; when it raises, the epoch loss already includes the batch.\<close>

definition batch_step ::
  "cfg \<Rightarrow> env \<Rightarrow> (real \<Rightarrow> real \<Rightarrow> real) \<Rightarrow> nat \<Rightarrow> nat \<Rightarrow> run_state \<Rightarrow> error \<times> run_state + run_state" where
  "batch_step c e target epoch i_batch st =
     (let adv_patch = data (adv_patch_cpu st);
          p_img_batch = patched_batch c e epoch i_batch adv_patch
      in if debug_mode c \<and> \<not> has_index_1 p_img_batch then Inl (IndexError, st)
         else
           (let st1 = (if debug_mode c
                       then st\<lparr>effects := effects st @ [SaveDebugImg (debug_img_path c i_batch)]\<rparr>
                       else st);
                L = forward_losses c e target epoch i_batch (map data (model st1)) adv_patch;
                st2 = st1\<lparr>ep_loss := ep_loss st1 + loss L\<rparr>
            in if debug_mode c \<and> backward_anomaly e (batch_loss c e target epoch i_batch) st2
               then Inl (RuntimeError, st2)
               else
                 (let st3 = backward e (batch_loss c e target epoch i_batch) st2;
                      st4 = update_patch e st3
                  in Inr (if i_batch mod 15 = 0
                          then st4\<lparr>effects := effects st4 @ emit_metrics e epoch i_batch L st4\<rparr>
                          else st4))))"

subsection \<open>Epochs and the whole run\<close>

fun run_batches ::
  "cfg \<Rightarrow> env \<Rightarrow> (real \<Rightarrow> real \<Rightarrow> real) \<Rightarrow> nat \<Rightarrow> nat list \<Rightarrow> run_state \<Rightarrow> error \<times> run_state + run_state" where
  "run_batches c e target epoch [] st = Inr st"
| "run_batches c e target epoch (i_batch # rest) st =
     (case batch_step c e target epoch i_batch st of
        Inl x \<Rightarrow> Inl x
      | Inr st' \<Rightarrow> run_batches c e target epoch rest st')"

text \<open>One pass of the loop over the epochs. \<^verbatim>\<open>ep_loss\<close> starts as the integer 0, so with an
  empty loader the division by \<^verbatim>\<open>len(self.train_loader)\<close> raises.\<close>

definition run_epoch ::
  "cfg \<Rightarrow> env \<Rightarrow> (real \<Rightarrow> real \<Rightarrow> real) \<Rightarrow> string \<Rightarrow> nat \<Rightarrow> run_state \<Rightarrow> error \<times> run_state + run_state" where
  "run_epoch c e target patch_dir epoch st =
     (let out_patch_path = osp_join patch_dir (patch_file_name (patch_name c) epoch)
      in case run_batches c e target epoch [0..<loader_len e] (st\<lparr>ep_loss := 0\<rparr>) of
           Inl x \<Rightarrow> Inl x
         | Inr st1 \<Rightarrow>
             if loader_len e = 0 then Inl (ZeroDivisionError, st1)
             else
               (let st2 = st1\<lparr>ep_loss := ep_loss st1 / real (loader_len e)\<rparr>;
                    (sch, rate) = scheduler_step (ep_loss st2) (scheduler st2, lr (optimizer st2));
                    st3 = st2\<lparr>scheduler := sch, optimizer := (optimizer st2)\<lparr>lr := rate\<rparr>\<rparr>
                in Inr (if epoch mod 1 = 0
                        then st3\<lparr>effects := effects st3 @ [SavePatch out_patch_path (data (adv_patch_cpu st3))]\<rparr>
                        else st3)))"

fun run_epochs ::
  "cfg \<Rightarrow> env \<Rightarrow> (real \<Rightarrow> real \<Rightarrow> real) \<Rightarrow> string \<Rightarrow> nat list \<Rightarrow> run_state \<Rightarrow> error \<times> run_state + run_state" where
  "run_epochs c e target patch_dir [] st = Inr st"
| "run_epochs c e target patch_dir (epoch # rest) st =
     (case run_epoch c e target patch_dir epoch st of
        Inl x \<Rightarrow> Inl x
      | Inr st' \<Rightarrow> run_epochs c e target patch_dir rest st')"

text \<open>\<^verbatim>\<open>PatchTrainer.__init__\<close>: freeze the detector and extend the log directory. Starting
  tensorboard and the writer's text records of the configuration are not modelled.\<close>

definition PatchTrainer_init :: "cfg \<Rightarrow> env \<Rightarrow> param list \<Rightarrow> cfg \<times> world" where
  "PatchTrainer_init c e model_parameters =
     (c\<lparr>log_dir := osp_join (log_dir c) (strftime e @ ''_'' @ patch_name c)\<rparr>,
      \<lparr>w_model = map (\<lambda>q. q\<lparr>requires_grad := False\<rparr>) model_parameters, w_effects = []\<rparr>)"

text \<open>The directories and the configuration dump at the start of \<^verbatim>\<open>train\<close>.\<close>

definition make_output_dirs :: "cfg \<Rightarrow> event list" where
  "make_output_dirs c =
     [MakeDirs (osp_join (log_dir c) ''patches'')]
     @ (if debug_mode c then [MakeDirs (osp_join (log_dir c) ''patch_applied_imgs'')] else [])
     @ [DumpJson (osp_join (log_dir c) ''cfg.json'')]"

text \<open>The locals of \<^verbatim>\<open>train\<close> once the patch, the optimizer and the scheduler exist.\<close>

definition start_state :: "cfg \<Rightarrow> world \<Rightarrow> tensor \<Rightarrow> run_state" where
  "start_state c w t =
     \<lparr>model = w_model w, effects = w_effects w,
      adv_patch_cpu = \<lparr>data = t, requires_grad = True, grad = None\<rparr>,
      optimizer = \<lparr>opt_params = [AdvPatch], lr = start_lr c, opt_state = []\<rparr>,
      scheduler = \<lparr>best = None, num_bad_epochs = 0, patience = 50\<rparr>,
      ep_loss = 0\<rparr>"

text \<open>\<^verbatim>\<open>train\<close> from the comment \<^verbatim>\<open># Generate init patch\<close> on: the function that
  \<^verbatim>\<open>self.cfg.loss_target\<close> holds by then is the argument \<open>target\<close>, and \<open>w1\<close> is the world with
  the output directories made.\<close>

definition train_from_patch :: "cfg \<Rightarrow> env \<Rightarrow> (real \<Rightarrow> real \<Rightarrow> real) \<Rightarrow> world \<Rightarrow> outcome" where
  "train_from_patch c e target w1 =
     (let patch_dir = osp_join (log_dir c) ''patches''
      in case init_patch c e of
           Inl err \<Rightarrow> Raised err w1
         | Inr t \<Rightarrow>
             (case run_epochs c e target patch_dir [0..<n_epochs c] (start_state c w1 t) of
                Inl (err, st) \<Rightarrow> Raised_in_loop err st
              | Inr st \<Rightarrow> Returned st))"

definition train :: "cfg \<Rightarrow> env \<Rightarrow> world \<Rightarrow> outcome" where
  "train c e w =
     (let w1 = w\<lparr>w_effects := w_effects w @ make_output_dirs c\<rparr>
      in case fix_loss_target (loss_target c) of
           Inl err \<Rightarrow> Raised err w1
         | Inr target \<Rightarrow> train_from_patch c e target w1)"

text \<open>\<^verbatim>\<open>main\<close>: construct the trainer, then train.\<close>

definition main :: "cfg \<Rightarrow> env \<Rightarrow> param list \<Rightarrow> outcome" where
  "main c e model_parameters = (case PatchTrainer_init c e model_parameters of (c', w) \<Rightarrow> train c' e w)"

subsection \<open>Observations on a run\<close>

text \<open>The detector's parameters as the run leaves them, whichever way it ends.\<close>

definition model_of :: "outcome \<Rightarrow> param list" where
  "model_of out =
     (case out of Raised err w \<Rightarrow> w_model w | Raised_in_loop err st \<Rightarrow> model st | Returned st \<Rightarrow> model st)"

text \<open>The locals of \<^verbatim>\<open>train\<close> at its return, if it returns.\<close>

definition returned :: "outcome \<Rightarrow> run_state option" where
  "returned out = (case out of Returned st \<Rightarrow> Some st | _ \<Rightarrow> None)"

text \<open>The patch images written, in order, with the tensor each one was made from.\<close>

fun saved_patches :: "event list \<Rightarrow> (string \<times> tensor) list" where
  "saved_patches [] = []"
| "saved_patches (SavePatch path t # evs) = (path, t) # saved_patches evs"
| "saved_patches (ev # evs) = saved_patches evs"

text \<open>The step counters of the patch snapshots sent to the writer, one per emission.\<close>

fun emission_steps :: "event list \<Rightarrow> nat list" where
  "emission_steps [] = []"
| "emission_steps (AddImage tag t iteration # evs) = iteration # emission_steps evs"
| "emission_steps (ev # evs) = emission_steps evs"

text \<open>The step counters of a run of \<open>n\<close> epochs that emits on every batch whose index in the
  epoch is a multiple of 15.\<close>

definition emission_schedule :: "env \<Rightarrow> nat \<Rightarrow> nat list" where
  "emission_schedule e n =
     concat (map (\<lambda>epoch. map (\<lambda>i_batch. loader_len e * epoch + i_batch)
                             (filter (\<lambda>i_batch. i_batch mod 15 = 0) [0..<loader_len e]))
               [0..<n])"

text \<open>The total loss as the specification writes it:
  detection + w\_nps \<open>\<cdot>\<close> printability + max (w\_tv \<open>\<cdot>\<close> smoothness, floor).\<close>

definition spec_total_loss ::
  "cfg \<Rightarrow> env \<Rightarrow> (real \<Rightarrow> real \<Rightarrow> real) \<Rightarrow> nat \<Rightarrow> nat \<Rightarrow> tensor list \<Rightarrow> tensor \<Rightarrow> real" where
  "spec_total_loss c e target epoch i_batch weights adv_patch =
     torch_mean (prob_extractor e target (detector e weights (patched_batch c e epoch i_batch adv_patch)))
     + nps_mult c * self_nps_loss e adv_patch
     + max (tv_mult c * self_tv_loss e adv_patch) (min_tv_loss c)"

text \<open>The totals of the batches of one epoch, each taken at the patch its batch starts from.\<close>

fun epoch_losses ::
  "cfg \<Rightarrow> env \<Rightarrow> (real \<Rightarrow> real \<Rightarrow> real) \<Rightarrow> nat \<Rightarrow> nat list \<Rightarrow> run_state \<Rightarrow> real list" where
  "epoch_losses c e target epoch [] st = []"
| "epoch_losses c e target epoch (i_batch # rest) st =
     (case batch_step c e target epoch i_batch st of
        Inl x \<Rightarrow> []
      | Inr st' \<Rightarrow>
          batch_loss c e target epoch i_batch (map data (model st)) (data (adv_patch_cpu st))
          # epoch_losses c e target epoch rest st')"

text \<open>The scheduler fed a sequence of epoch losses.\<close>

definition feed_scheduler :: "real list \<Rightarrow> plateau \<times> real \<Rightarrow> plateau \<times> real" where
  "feed_scheduler metrics start = fold scheduler_step metrics start"

subsection \<open>A small concrete run\<close>

text \<open>Two batches of two images per epoch, a detector that reports objectness 0.9 and class
  score 0.8 on the first image, plain gradient descent in place of Adam (one step on one
  entry is \<open>descend\<close>, with NaN as soon as an operand is not finite), and a gradient of
  ones, so that every update leaves the unit interval before the clamp.\<close>

fun descend :: "real \<Rightarrow> fl \<Rightarrow> fl \<Rightarrow> fl" where
  "descend rate (Fin x) (Fin g) = Fin (x - rate * g)"
| "descend rate x g = NaN"

definition demo_env :: env where
  "demo_env =
     \<lparr>strftime = ''20240101-000000'',
      loader_len = 2,
      loader_imgs = (\<lambda>epoch i. \<lparr>shape = [2, 3, 1, 1], entries = replicate 6 (Fin (1 / 2))\<rparr>),
      loader_labs = (\<lambda>epoch i. \<lparr>shape = [2, 1, 5], entries = replicate 10 (Fin (1 / 2))\<rparr>),
      patch_transformer = (\<lambda>epoch i p labs sz tr rot. p),
      patch_applier = (\<lambda>imgs adv. imgs),
      interpolate = (\<lambda>t sz. t),
      detector = (\<lambda>ws x. x),
      prob_extractor = (\<lambda>f out. [f (9 / 10) (8 / 10), f (1 / 2) (1 / 2)]),
      self_nps_loss = (\<lambda>p. real (length (entries p)) / 2),
      self_tv_loss = (\<lambda>p. 1 / 4),
      autograd = (\<lambda>f p. p\<lparr>entries := map (\<lambda>x. Fin 1) (entries p)\<rparr>),
      adam_update = (\<lambda>rate s g d.
         (\<lparr>step_count = (case s of None \<Rightarrow> 1 | Some a \<Rightarrow> step_count a + 1),
           exp_avg = g, exp_avg_sq = g, max_exp_avg_sq = g\<rparr>,
          d\<lparr>entries := map2 (descend rate) (entries d) (entries g)\<rparr>)),
      torch_rand = (\<lambda>shp. torch_full shp (Fin (1 / 4))),
      image_open = (\<lambda>path. if path = ''img.png''
                            then Some \<lparr>shape = [1, 1, 3], entries = [Fin 0, Fin 0, Fin 0]\<rparr> else None),
      resized_pixels = (\<lambda>img h w. replicate (3 * h * w) (Fin (1 / 2)))\<rparr>"

definition demo_cfg :: cfg where
  "demo_cfg =
     \<lparr>log_dir = ''runs'', patch_name = ''p'', debug_mode = False, loss_target = ''obj * cls'',
      patch_src = ''gray'', patch_size = (2, 1), start_lr = 1, n_epochs = 2,
      min_tv_loss = 1 / 10, nps_mult = 1 / 100, tv_mult = 5 / 2, model_in_sz = (1, 1),
      transform_patches = True, rotate_patches = True\<rparr>"

definition demo_world :: world where
  "demo_world =
     \<lparr>w_model = [\<lparr>data = \<lparr>shape = [1], entries = [Fin 7]\<rparr>, requires_grad = False, grad = None\<rparr>],
      w_effects = []\<rparr>"

definition demo_state :: run_state where
  "demo_state = start_state demo_cfg demo_world (torch_full [3, 1, 2] (Fin (1 / 2)))"

text \<open>The same configuration with both regularisers switched off, and with the smoothness
  weight zero and a negative floor.\<close>

definition no_reg_cfg :: cfg where
  "no_reg_cfg = demo_cfg\<lparr>tv_mult := 0, nps_mult := 0\<rparr>"

definition neg_floor_cfg :: cfg where
  "neg_floor_cfg = demo_cfg\<lparr>tv_mult := 0, min_tv_loss := - 1\<rparr>"

text \<open>The same run with a gradient whose entries are all NaN.\<close>

definition nan_env :: env where
  "nan_env = demo_env\<lparr>autograd := (\<lambda>f p. p\<lparr>entries := map (\<lambda>x. NaN) (entries p)\<rparr>)\<rparr>"

text \<open>The two other loss targets.\<close>

definition obj_cfg :: cfg where
  "obj_cfg = demo_cfg\<lparr>loss_target := ''obj''\<rparr>"

definition cls_cfg :: cfg where
  "cls_cfg = demo_cfg\<lparr>loss_target := ''cls''\<rparr>"

text \<open>The same run with sixteen batches in an epoch.\<close>

definition long_env :: env where
  "long_env = demo_env\<lparr>loader_len := 16\<rparr>"

text \<open>A printability loss that does not depend on the patch, so that every batch of every
  epoch has the same total loss, 57/50; and a run of 52 epochs from the rate \<open>10\<^sup>-\<^sup>9\<close>.\<close>

definition flat_env :: env where
  "flat_env = demo_env\<lparr>self_nps_loss := (\<lambda>p. 3)\<rparr>"


text \<open>An unknown loss target, and an image file as the initial patch.\<close>

definition bad_target_cfg :: cfg where
  "bad_target_cfg = demo_cfg\<lparr>loss_target := ''objectness''\<rparr>"

definition image_cfg :: cfg where
  "image_cfg = demo_cfg\<lparr>patch_src := ''img.png''\<rparr>"

text \<open>The state a loop leaves, whether it ended normally or by an exception.\<close>

definition state_of :: "error \<times> run_state + run_state \<Rightarrow> run_state" where
  "state_of r = (case r of Inl (err, st) \<Rightarrow> st | Inr st \<Rightarrow> st)"

section \<open>Properties\<close>

subsection \<open>What one update touches\<close>

lemma fl_clamp_unit: "fl_clamp 0 1 x = NaN \<or> fl_in_unit (fl_clamp 0 1 x)"
  by (cases x) simp_all

lemma fl_clamp_nan: "fl_clamp lo hi x = NaN \<longleftrightarrow> x = NaN"
  by (cases x) simp_all

lemma clamp_in_unit_range_or_nan: "in_unit_range_or_nan (clamp_inplace 0 1 t)"
  by (simp add: in_unit_range_or_nan_def clamp_inplace_def list_all_iff fl_clamp_unit)

lemma clamp_has_nan: "has_nan (clamp_inplace lo hi t) = has_nan t"
proof -
  have "NaN \<in> fl_clamp lo hi ` set (entries t) \<longleftrightarrow> NaN \<in> set (entries t)"
  proof
    assume "NaN \<in> fl_clamp lo hi ` set (entries t)"
    then obtain x where "x \<in> set (entries t)" and "fl_clamp lo hi x = NaN" by auto
    then show "NaN \<in> set (entries t)" by (simp add: fl_clamp_nan)
  next
    assume "NaN \<in> set (entries t)"
    then have "fl_clamp lo hi NaN \<in> fl_clamp lo hi ` set (entries t)" by (rule imageI)
    then show "NaN \<in> fl_clamp lo hi ` set (entries t)" by simp
  qed
  then show ?thesis by (simp add: has_nan_def clamp_inplace_def)
qed

lemma in_unit_range_iff: "in_unit_range t \<longleftrightarrow> in_unit_range_or_nan t \<and> \<not> has_nan t"
  by (auto simp: in_unit_range_def in_unit_range_or_nan_def has_nan_def list_all_iff)

lemma update_patch_in_unit_range_or_nan:
  "in_unit_range_or_nan (data (adv_patch_cpu (update_patch e st)))"
  by (simp add: update_patch_def Let_def clamp_in_unit_range_or_nan)

lemma backward_model_data: "map data (model (backward e f st)) = map data (model st)"
  unfolding backward_def Let_def
  by (auto simp: list_eq_iff_nth_eq nth_enumerate_eq accumulate_def)

lemma backward_fields:
  "optimizer (backward e f st) = optimizer st"
  "scheduler (backward e f st) = scheduler st"
  "effects (backward e f st) = effects st"
  "ep_loss (backward e f st) = ep_loss st"
  "data (adv_patch_cpu (backward e f st)) = data (adv_patch_cpu st)"
  by (simp_all add: backward_def Let_def accumulate_def)

lemma step_param_patch_fields:
  "model (step_param e AdvPatch st) = model st"
  "opt_params (optimizer (step_param e AdvPatch st)) = opt_params (optimizer st)"
  "lr (optimizer (step_param e AdvPatch st)) = lr (optimizer st)"
  "scheduler (step_param e AdvPatch st) = scheduler st"
  "effects (step_param e AdvPatch st) = effects st"
  "ep_loss (step_param e AdvPatch st) = ep_loss st"
  by (simp_all add: step_param_def split: option.splits prod.splits)

lemma update_patch_fields:
  assumes "opt_params (optimizer st) = [AdvPatch]"
  shows "model (update_patch e st) = model st"
    and "opt_params (optimizer (update_patch e st)) = [AdvPatch]"
    and "lr (optimizer (update_patch e st)) = lr (optimizer st)"
    and "scheduler (update_patch e st) = scheduler st"
    and "effects (update_patch e st) = effects st"
    and "ep_loss (update_patch e st) = ep_loss st"
  using assms
  by (simp_all add: update_patch_def Let_def zero_grad_def optimizer_step_def step_param_patch_fields)

lemma batch_loss_eq_spec:
  "batch_loss c e target epoch i ws p = spec_total_loss c e target epoch i ws p"
  by (simp add: batch_loss_def forward_losses_def spec_total_loss_def Let_def tensor_value_def
      mult.commute)

lemma update_patch_data:
  assumes "opt_params (optimizer st) = [AdvPatch]" and "grad (adv_patch_cpu st) = Some g"
  shows "data (adv_patch_cpu (update_patch e st)) =
         clamp_inplace 0 1 (snd (adam_update e (lr (optimizer st))
           (map_of (opt_state (optimizer st)) AdvPatch) g (data (adv_patch_cpu st))))"
  using assms
  by (simp add: update_patch_def Let_def zero_grad_def optimizer_step_def step_param_def
      split: prod.splits)

lemma backward_patch_grad:
  assumes "requires_grad (adv_patch_cpu st)" and "grad (adv_patch_cpu st) = None"
  shows "grad (adv_patch_cpu (backward e f st)) =
         Some (autograd e (f (map data (model st))) (data (adv_patch_cpu st)))"
  using assms by (simp add: backward_def Let_def accumulate_def)

lemma demo_batch_step:
  "\<exists>st'. batch_step demo_cfg demo_env (\<lambda>obj cls. obj * cls) 0 0 demo_state = Inr st'"
  by (simp add: batch_step_def Let_def demo_cfg_def demo_env_def patched_batch_def has_index_1_def)

lemma demo_state_ready:
  "opt_params (optimizer demo_state) = [AdvPatch]"
  "requires_grad (adv_patch_cpu demo_state)"
  "grad (adv_patch_cpu demo_state) = None"
  by (simp_all add: demo_state_def start_state_def)

lemma batch_step_patch_data:
  assumes "batch_step c e target epoch i_batch st = Inr st'"
    and "opt_params (optimizer st) = [AdvPatch]"
    and "requires_grad (adv_patch_cpu st)"
    and "grad (adv_patch_cpu st) = None"
  shows "data (adv_patch_cpu st') =
           clamp_inplace 0 1 (snd (adam_update e (lr (optimizer st))
             (map_of (opt_state (optimizer st)) AdvPatch)
             (autograd e (batch_loss c e target epoch i_batch (map data (model st)))
                (data (adv_patch_cpu st)))
             (data (adv_patch_cpu st))))"
proof -
  let ?L = "forward_losses c e target epoch i_batch (map data (model st)) (data (adv_patch_cpu st))"
  let ?st1 = "if debug_mode c
              then st\<lparr>effects := effects st @ [SaveDebugImg (debug_img_path c i_batch)]\<rparr> else st"
  let ?st2 = "?st1\<lparr>ep_loss := ep_loss ?st1 + loss ?L\<rparr>"
  let ?st3 = "backward e (batch_loss c e target epoch i_batch) ?st2"
  let ?st4 = "update_patch e ?st3"
  from assms(1) have d: "data (adv_patch_cpu st') = data (adv_patch_cpu ?st4)"
    by (auto simp: batch_step_def Let_def split: if_splits)
  have p3: "opt_params (optimizer ?st3) = [AdvPatch]"
    using assms(2) by (simp add: backward_fields)
  have g3: "grad (adv_patch_cpu ?st3) =
      Some (autograd e (batch_loss c e target epoch i_batch (map data (model st)))
              (data (adv_patch_cpu st)))"
    using assms(3,4) by (simp add: backward_patch_grad)
  show ?thesis
    using update_patch_data[OF p3 g3, of e] by (simp add: d backward_fields)
qed

lemma demo_batch_step_data:
  assumes "batch_step demo_cfg demo_env (\<lambda>obj cls. obj * cls) 0 0 demo_state = Inr st'"
  shows "data (adv_patch_cpu st') = \<lparr>shape = [3, 1, 2], entries = [Fin 0, Fin 0, Fin 0, Fin 0, Fin 0, Fin 0]\<rparr>"
  using batch_step_patch_data [OF assms demo_state_ready]
  by (simp add: demo_state_def start_state_def demo_cfg_def demo_env_def
      torch_full_def clamp_inplace_def eval_nat_numeral)

lemma nan_batch_step:
  "\<exists>st'. batch_step demo_cfg nan_env (\<lambda>obj cls. obj * cls) 0 0 demo_state = Inr st'"
  by (simp add: batch_step_def Let_def demo_cfg_def nan_env_def demo_env_def patched_batch_def has_index_1_def)

lemma nan_batch_step_data:
  assumes "batch_step demo_cfg nan_env (\<lambda>obj cls. obj * cls) 0 0 demo_state = Inr st'"
  shows "data (adv_patch_cpu st') = \<lparr>shape = [3, 1, 2], entries = [NaN, NaN, NaN, NaN, NaN, NaN]\<rparr>"
  using batch_step_patch_data [OF assms demo_state_ready]
  by (simp add: demo_state_def start_state_def demo_cfg_def demo_env_def nan_env_def
      torch_full_def clamp_inplace_def eval_nat_numeral)

subsection \<open>The loss of a batch\<close>

text \<open>
  Claim C1. In every batch step the total loss is
  detection + w\_nps \<open>\<cdot>\<close> printability + max (w\_tv \<open>\<cdot>\<close> smoothness, floor), where the detection
  term is the batch mean of the extracted maximal probabilities: the step adds exactly this
  value to the epoch loss, and the patch it leaves is the clamped Adam update along the
  gradient of exactly this function of the patch. The smoothness term is never below the
  floor.
\<close>

theorem total_loss_formula:
  assumes "batch_step c e target epoch i_batch st = Inr st'"
    and "opt_params (optimizer st) = [AdvPatch]"
    and "requires_grad (adv_patch_cpu st)"
    and "grad (adv_patch_cpu st) = None"
  shows "ep_loss st' = ep_loss st
           + spec_total_loss c e target epoch i_batch (map data (model st)) (data (adv_patch_cpu st))
         \<and> data (adv_patch_cpu st') =
             clamp_inplace 0 1 (snd (adam_update e (lr (optimizer st))
               (map_of (opt_state (optimizer st)) AdvPatch)
               (autograd e (spec_total_loss c e target epoch i_batch (map data (model st)))
                  (data (adv_patch_cpu st)))
               (data (adv_patch_cpu st))))
         \<and> min_tv_loss c \<le> tv_loss (forward_losses c e target epoch i_batch
               (map data (model st)) (data (adv_patch_cpu st)))"
proof -
  let ?L = "forward_losses c e target epoch i_batch (map data (model st)) (data (adv_patch_cpu st))"
  let ?st1 = "if debug_mode c
              then st\<lparr>effects := effects st @ [SaveDebugImg (debug_img_path c i_batch)]\<rparr> else st"
  let ?st2 = "?st1\<lparr>ep_loss := ep_loss ?st1 + loss ?L\<rparr>"
  let ?st3 = "backward e (batch_loss c e target epoch i_batch) ?st2"
  let ?st4 = "update_patch e ?st3"
  have fn: "batch_loss c e target epoch i_batch = spec_total_loss c e target epoch i_batch"
    by (intro ext) (rule batch_loss_eq_spec)
  from assms(1) have st': "st' = (if i_batch mod 15 = 0
      then ?st4\<lparr>effects := effects ?st4 @ emit_metrics e epoch i_batch ?L ?st4\<rparr> else ?st4)"
    by (auto simp: batch_step_def Let_def split: if_splits)
  have p3: "opt_params (optimizer ?st3) = [AdvPatch]"
    using assms(2) by (simp add: backward_fields)
  have g3: "grad (adv_patch_cpu ?st3) =
      Some (autograd e (spec_total_loss c e target epoch i_batch (map data (model st)))
              (data (adv_patch_cpu st)))"
    using assms(3,4) by (simp add: backward_patch_grad fn)
  have "ep_loss st' = ep_loss st + loss ?L"
    using p3 by (simp add: st' update_patch_fields backward_fields)
  moreover have "loss ?L = spec_total_loss c e target epoch i_batch (map data (model st))
      (data (adv_patch_cpu st))"
    using batch_loss_eq_spec[of c e target epoch i_batch] by (simp add: batch_loss_def)
  moreover have "data (adv_patch_cpu st') = data (adv_patch_cpu ?st4)"
    by (simp add: st')
  moreover have "data (adv_patch_cpu ?st4) =
      clamp_inplace 0 1 (snd (adam_update e (lr (optimizer st))
               (map_of (opt_state (optimizer st)) AdvPatch)
               (autograd e (spec_total_loss c e target epoch i_batch (map data (model st)))
                  (data (adv_patch_cpu st)))
               (data (adv_patch_cpu st))))"
    using update_patch_data[OF p3 g3, of e] by (simp add: backward_fields)
  moreover have "min_tv_loss c \<le> tv_loss ?L"
    by (simp add: forward_losses_def Let_def)
  ultimately show ?thesis by simp
qed

theorem total_loss_formula_witness:
  "opt_params (optimizer demo_state) = [AdvPatch]
   \<and> requires_grad (adv_patch_cpu demo_state)
   \<and> grad (adv_patch_cpu demo_state) = None
   \<and> (case batch_step demo_cfg demo_env (\<lambda>obj cls. obj * cls) 0 0 demo_state of
        Inl x \<Rightarrow> False
      | Inr st' \<Rightarrow>
          ep_loss st' = 57 / 50
          \<and> data (adv_patch_cpu st') = \<lparr>shape = [3, 1, 2], entries = [Fin 0, Fin 0, Fin 0, Fin 0, Fin 0, Fin 0]\<rparr>)"
proof -
  obtain st' where h: "batch_step demo_cfg demo_env (\<lambda>obj cls. obj * cls) 0 0 demo_state = Inr st'"
    using demo_batch_step by blast
  have "ep_loss st' = 57 / 50
        \<and> data (adv_patch_cpu st') = \<lparr>shape = [3, 1, 2], entries = [Fin 0, Fin 0, Fin 0, Fin 0, Fin 0, Fin 0]\<rparr>"
    using total_loss_formula [OF h demo_state_ready]
    by (simp add: spec_total_loss_def demo_state_def start_state_def demo_cfg_def demo_env_def
        demo_world_def patched_batch_def torch_mean_def torch_full_def clamp_inplace_def
        eval_nat_numeral)
  then show ?thesis by (simp add: h demo_state_ready)
qed

text \<open>
  Claim C10. With a zero smoothness weight the smoothness module is not called and the
  smoothness term is max (0, floor), which is the floor itself whenever the floor is not
  negative, so the total still carries the floor; with a zero printability weight the
  printability module is not called and its term is exactly zero.
\<close>

theorem zero_weights_skip_losses:
  "(tv_mult c = 0 \<longrightarrow>
      tv (forward_losses c e target epoch i_batch ws p) = None
      \<and> tv_loss (forward_losses c e target epoch i_batch ws p) = max 0 (min_tv_loss c)
      \<and> (0 \<le> min_tv_loss c \<longrightarrow>
           loss (forward_losses c e target epoch i_batch ws p) =
             det_loss (forward_losses c e target epoch i_batch ws p)
             + nps_loss (forward_losses c e target epoch i_batch ws p) + min_tv_loss c))
   \<and> (nps_mult c = 0 \<longrightarrow>
      nps (forward_losses c e target epoch i_batch ws p) = None
      \<and> nps_loss (forward_losses c e target epoch i_batch ws p) = 0
      \<and> loss (forward_losses c e target epoch i_batch ws p) =
          det_loss (forward_losses c e target epoch i_batch ws p)
          + tv_loss (forward_losses c e target epoch i_batch ws p))"
  by (simp add: forward_losses_def Let_def tensor_value_def max_def)

theorem zero_weights_skip_losses_witness:
  "tv_mult no_reg_cfg = 0 \<and> nps_mult no_reg_cfg = 0 \<and> 0 \<le> min_tv_loss no_reg_cfg
   \<and> tv (forward_losses no_reg_cfg demo_env (\<lambda>obj cls. obj) 0 0 [] (torch_full [3, 1, 2] (Fin (1 / 2)))) = None
   \<and> nps (forward_losses no_reg_cfg demo_env (\<lambda>obj cls. obj) 0 0 [] (torch_full [3, 1, 2] (Fin (1 / 2)))) = None
   \<and> loss (forward_losses no_reg_cfg demo_env (\<lambda>obj cls. obj) 0 0 [] (torch_full [3, 1, 2] (Fin (1 / 2))))
       = 7 / 10 + 0 + 1 / 10"
proof -
  have h: "tv_mult no_reg_cfg = 0" "nps_mult no_reg_cfg = 0" "0 \<le> min_tv_loss no_reg_cfg"
    by (simp_all add: no_reg_cfg_def demo_cfg_def)
  have d: "det_loss (forward_losses no_reg_cfg demo_env (\<lambda>obj cls. obj) 0 0 []
             (torch_full [3, 1, 2] (Fin (1 / 2)))) = 7 / 10"
    by (simp add: forward_losses_def Let_def demo_env_def torch_mean_def)
  have m: "min_tv_loss no_reg_cfg = 1 / 10"
    by (simp add: no_reg_cfg_def demo_cfg_def)
  show ?thesis
    using zero_weights_skip_losses [of no_reg_cfg demo_env "\<lambda>obj cls. obj" 0 0 "[]"
        "torch_full [3, 1, 2] (Fin (1 / 2))"] h d m
    by simp
qed

text \<open>With a negative floor and a zero smoothness weight the smoothness term is zero, not the
  floor.\<close>

theorem floor_term_counterexample:
  "tv_mult neg_floor_cfg = 0
   \<and> tv_loss (forward_losses neg_floor_cfg demo_env (\<lambda>obj cls. obj) 0 0 [] (torch_full [3, 1, 2] (Fin (1 / 2))))
       \<noteq> min_tv_loss neg_floor_cfg
   \<and> loss (forward_losses neg_floor_cfg demo_env (\<lambda>obj cls. obj) 0 0 [] (torch_full [3, 1, 2] (Fin (1 / 2))))
       \<noteq> det_loss (forward_losses neg_floor_cfg demo_env (\<lambda>obj cls. obj) 0 0 [] (torch_full [3, 1, 2] (Fin (1 / 2))))
         + nps_loss (forward_losses neg_floor_cfg demo_env (\<lambda>obj cls. obj) 0 0 [] (torch_full [3, 1, 2] (Fin (1 / 2))))
         + min_tv_loss neg_floor_cfg"
  by (simp add: forward_losses_def Let_def neg_floor_cfg_def demo_cfg_def tensor_value_def)


subsection \<open>The clamp\<close>

text \<open>
  Claim C2, as far as it holds. After every batch step, that is, immediately after the
  optimizer update, every entry of the patch is NaN or lies in the interval from 0 to 1,
  whatever the gradient, the learning rate and the update rule are. The clamp neither
  removes nor creates NaN: the patch has a NaN entry after the step exactly when the Adam
  update produced one from the gradient of the batch loss, and all its entries lie in the
  interval exactly when it did not.
\<close>

theorem patch_clamped_unless_nan:
  assumes "batch_step c e target epoch i_batch st = Inr st'"
    and "opt_params (optimizer st) = [AdvPatch]"
    and "requires_grad (adv_patch_cpu st)"
    and "grad (adv_patch_cpu st) = None"
  shows "in_unit_range_or_nan (data (adv_patch_cpu st'))
         \<and> has_nan (data (adv_patch_cpu st')) =
             has_nan (snd (adam_update e (lr (optimizer st))
               (map_of (opt_state (optimizer st)) AdvPatch)
               (autograd e (batch_loss c e target epoch i_batch (map data (model st)))
                  (data (adv_patch_cpu st)))
               (data (adv_patch_cpu st))))
         \<and> in_unit_range (data (adv_patch_cpu st')) = (\<not> has_nan (data (adv_patch_cpu st')))"
proof -
  let ?L = "forward_losses c e target epoch i_batch (map data (model st)) (data (adv_patch_cpu st))"
  let ?st1 = "if debug_mode c
              then st\<lparr>effects := effects st @ [SaveDebugImg (debug_img_path c i_batch)]\<rparr> else st"
  let ?st2 = "?st1\<lparr>ep_loss := ep_loss ?st1 + loss ?L\<rparr>"
  let ?st3 = "backward e (batch_loss c e target epoch i_batch) ?st2"
  let ?st4 = "update_patch e ?st3"
  from assms(1) have d: "data (adv_patch_cpu st') = data (adv_patch_cpu ?st4)"
    by (auto simp: batch_step_def Let_def split: if_splits)
  have p3: "opt_params (optimizer ?st3) = [AdvPatch]"
    using assms(2) by (simp add: backward_fields)
  have g3: "grad (adv_patch_cpu ?st3) =
      Some (autograd e (batch_loss c e target epoch i_batch (map data (model st)))
              (data (adv_patch_cpu st)))"
    using assms(3,4) by (simp add: backward_patch_grad)
  have u: "in_unit_range_or_nan (data (adv_patch_cpu st'))"
    by (simp add: d update_patch_in_unit_range_or_nan)
  have "data (adv_patch_cpu ?st4) =
      clamp_inplace 0 1 (snd (adam_update e (lr (optimizer st))
               (map_of (opt_state (optimizer st)) AdvPatch)
               (autograd e (batch_loss c e target epoch i_batch (map data (model st)))
                  (data (adv_patch_cpu st)))
               (data (adv_patch_cpu st))))"
    using update_patch_data[OF p3 g3, of e] by (simp add: backward_fields)
  then have n: "has_nan (data (adv_patch_cpu st')) =
             has_nan (snd (adam_update e (lr (optimizer st))
               (map_of (opt_state (optimizer st)) AdvPatch)
               (autograd e (batch_loss c e target epoch i_batch (map data (model st)))
                  (data (adv_patch_cpu st)))
               (data (adv_patch_cpu st))))"
    by (simp add: d clamp_has_nan)
  from u n show ?thesis by (simp add: in_unit_range_iff)
qed

theorem patch_clamped_unless_nan_witness:
  "opt_params (optimizer demo_state) = [AdvPatch]
   \<and> requires_grad (adv_patch_cpu demo_state)
   \<and> grad (adv_patch_cpu demo_state) = None
   \<and> (case batch_step demo_cfg demo_env (\<lambda>obj cls. obj * cls) 0 0 demo_state of
        Inl x \<Rightarrow> False
      | Inr st' \<Rightarrow> \<not> has_nan (data (adv_patch_cpu st')) \<and> in_unit_range (data (adv_patch_cpu st')))"
proof -
  obtain st' where h: "batch_step demo_cfg demo_env (\<lambda>obj cls. obj * cls) 0 0 demo_state = Inr st'"
    using demo_batch_step by blast
  have n: "\<not> has_nan (data (adv_patch_cpu st'))"
    by (simp add: demo_batch_step_data [OF h] has_nan_def)
  have "in_unit_range (data (adv_patch_cpu st'))"
    using patch_clamped_unless_nan [OF h demo_state_ready] n by simp
  then show ?thesis using n by (simp add: h demo_state_ready)
qed

text \<open>A gradient of NaN entries, taken by the same descent step, leaves a patch of NaN entries
  after the clamp: the step returns, and its patch is not in the unit interval.\<close>

theorem nan_survives_clamp_counterexample:
  "\<not> isl (batch_step demo_cfg nan_env (\<lambda>obj cls. obj * cls) 0 0 demo_state)
   \<and> data (adv_patch_cpu (state_of (batch_step demo_cfg nan_env (\<lambda>obj cls. obj * cls) 0 0 demo_state)))
       = \<lparr>shape = [3, 1, 2], entries = [NaN, NaN, NaN, NaN, NaN, NaN]\<rparr>
   \<and> \<not> in_unit_range
         (data (adv_patch_cpu (state_of (batch_step demo_cfg nan_env (\<lambda>obj cls. obj * cls) 0 0 demo_state))))"
proof -
  obtain st' where h: "batch_step demo_cfg nan_env (\<lambda>obj cls. obj * cls) 0 0 demo_state = Inr st'"
    using nan_batch_step by blast
  show ?thesis
    by (simp add: h state_of_def nan_batch_step_data [OF h] in_unit_range_def)
qed


subsection \<open>The initial patch\<close>

lemma gray_patch:
  "patch_src c = ''gray'' \<Longrightarrow> patch_size c = (p_w, p_h) \<Longrightarrow>
   init_patch c e = Inr \<lparr>shape = [3, p_h, p_w], entries = replicate (3 * p_h * p_w) (Fin (1 / 2))\<rparr>"
  by (simp add: init_patch_def generate_patch_def torch_full_def mult.assoc)

text \<open>
  Claim C5. The patch is created from the configured source: gray gives a 3-channel tensor
  of the configured size filled with 0.5, random a 3-channel tensor of that size, any other
  string is read as an image file and resized to the configured size. With the configured
  size (width 2, height 1) the gray patch has shape 3 \<open>\<times>\<close> 1 \<open>\<times>\<close> 2, but the patch loaded from
  a file has shape 3 \<open>\<times>\<close> 2 \<open>\<times>\<close> 1: \<^verbatim>\<open>read_image\<close> passes the (width, height) pair to a resize
  that reads it as (height, width).
\<close>

theorem loaded_patch_shape_transposed:
  "patch_size image_cfg = (2, 1) \<and> patch_size demo_cfg = (2, 1)
   \<and> init_patch demo_cfg demo_env = Inr \<lparr>shape = [3, 1, 2], entries = [Fin (1/2), Fin (1/2), Fin (1/2), Fin (1/2), Fin (1/2), Fin (1/2)]\<rparr>
   \<and> init_patch image_cfg demo_env = Inr \<lparr>shape = [3, 2, 1], entries = [Fin (1/2), Fin (1/2), Fin (1/2), Fin (1/2), Fin (1/2), Fin (1/2)]\<rparr>"
  by (simp add: init_patch_def generate_patch_def read_image_def image_cfg_def demo_cfg_def
      demo_env_def torch_full_def eval_nat_numeral)

subsection \<open>Loops\<close>

lemma emission_steps_append:
  "emission_steps (xs @ ys) = emission_steps xs @ emission_steps ys"
  by (induction xs rule: emission_steps.induct) simp_all

lemma saved_patches_append:
  "saved_patches (xs @ ys) = saved_patches xs @ saved_patches ys"
  by (induction xs rule: saved_patches.induct) simp_all

lemma emission_steps_emit [simp]:
  "emission_steps (emit_metrics e epoch i L st) = [loader_len e * epoch + i]"
  by (simp add: emit_metrics_def Let_def)

lemma saved_patches_emit [simp]: "saved_patches (emit_metrics e epoch i L st) = []"
  by (simp add: emit_metrics_def Let_def)

lemma batch_step_Inl:
  "batch_step c e target epoch i st = Inl (err, st') \<Longrightarrow>
   st' = st \<or> (\<exists>evs x. st' = st\<lparr>effects := evs\<rparr>\<lparr>ep_loss := x\<rparr>)"
  by (auto simp: batch_step_def Let_def split: if_splits)

lemma backward_frozen:
  "list_all (\<lambda>q. \<not> requires_grad q) (model st) \<Longrightarrow> model (backward e f st) = model st"
  unfolding backward_def Let_def
  by (auto simp: list_eq_iff_nth_eq nth_enumerate_eq list_all_length)

lemma batch_step_fields:
  assumes "batch_step c e target epoch i st = Inr st'"
    and "opt_params (optimizer st) = [AdvPatch]"
  shows "opt_params (optimizer st') = [AdvPatch]"
    and "lr (optimizer st') = lr (optimizer st)"
    and "scheduler st' = scheduler st"
    and "map data (model st') = map data (model st)"
    and "ep_loss st' = ep_loss st
           + batch_loss c e target epoch i (map data (model st)) (data (adv_patch_cpu st))"
    and "effects st' = effects st
           @ (if debug_mode c then [SaveDebugImg (debug_img_path c i)] else [])
           @ (if i mod 15 = 0
              then emit_metrics e epoch i
                     (forward_losses c e target epoch i (map data (model st)) (data (adv_patch_cpu st))) st'
              else [])"
    and "list_all (\<lambda>q. \<not> requires_grad q) (model st) \<Longrightarrow> model st' = model st"
proof -
  let ?L = "forward_losses c e target epoch i (map data (model st)) (data (adv_patch_cpu st))"
  let ?st1 = "if debug_mode c
              then st\<lparr>effects := effects st @ [SaveDebugImg (debug_img_path c i)]\<rparr> else st"
  let ?st2 = "?st1\<lparr>ep_loss := ep_loss ?st1 + loss ?L\<rparr>"
  let ?st3 = "backward e (batch_loss c e target epoch i) ?st2"
  let ?st4 = "update_patch e ?st3"
  from assms(1) have st': "st' = (if i mod 15 = 0
      then ?st4\<lparr>effects := effects ?st4 @ emit_metrics e epoch i ?L ?st4\<rparr> else ?st4)"
    by (auto simp: batch_step_def Let_def split: if_splits)
  have p3: "opt_params (optimizer ?st3) = [AdvPatch]"
    using assms(2) by (simp add: backward_fields)
  note up = update_patch_fields [OF p3, of e]
  show "opt_params (optimizer st') = [AdvPatch]" by (simp add: st' up)
  show "lr (optimizer st') = lr (optimizer st)" by (simp add: st' up backward_fields)
  show "scheduler st' = scheduler st" by (simp add: st' up backward_fields)
  show "map data (model st') = map data (model st)"
    by (simp add: st' up backward_model_data)
  show "ep_loss st' = ep_loss st
           + batch_loss c e target epoch i (map data (model st)) (data (adv_patch_cpu st))"
    by (simp add: st' up backward_fields batch_loss_def)
  have em: "emit_metrics e epoch i ?L ?st4 = emit_metrics e epoch i ?L st'"
    by (simp add: st' emit_metrics_def)
  show "effects st' = effects st
           @ (if debug_mode c then [SaveDebugImg (debug_img_path c i)] else [])
           @ (if i mod 15 = 0 then emit_metrics e epoch i ?L st' else [])"
    unfolding em [symmetric] by (simp add: st' up backward_fields)
  show "model st' = model st" if "list_all (\<lambda>q. \<not> requires_grad q) (model st)"
    using that by (simp add: st' up backward_frozen)
qed

lemma run_batches_state_of:
  assumes "\<And>i s s'. P s \<Longrightarrow> batch_step c e target epoch i s = Inr s' \<Longrightarrow> P s'"
    and "\<And>s x. P s \<Longrightarrow> P (s\<lparr>ep_loss := x\<rparr>)"
    and "\<And>s evs. P s \<Longrightarrow> P (s\<lparr>effects := evs\<rparr>)"
  shows "P st \<Longrightarrow> P (state_of (run_batches c e target epoch is st))"
proof (induction "is" arbitrary: st)
  case Nil
  then show ?case by (simp add: state_of_def)
next
  case (Cons i rest)
  show ?case
  proof (cases "batch_step c e target epoch i st")
    case (Inl x)
    obtain err s where x: "x = (err, s)" by (cases x)
    from batch_step_Inl [of c e target epoch i st err s] Inl x
    have "s = st \<or> (\<exists>evs y. s = st\<lparr>effects := evs\<rparr>\<lparr>ep_loss := y\<rparr>)" by simp
    then have "P s" using Cons.prems assms(2) assms(3) by auto
    then show ?thesis using Inl x by (simp add: state_of_def)
  next
    case (Inr s')
    then show ?thesis using Cons.IH [of s'] assms(1) [OF Cons.prems Inr] by simp
  qed
qed

lemma run_epoch_state_of:
  assumes "\<And>i s s'. P s \<Longrightarrow> batch_step c e target epoch i s = Inr s' \<Longrightarrow> P s'"
    and "\<And>s x. P s \<Longrightarrow> P (s\<lparr>ep_loss := x\<rparr>)"
    and "\<And>s sch r. P s \<Longrightarrow> P (s\<lparr>scheduler := sch, optimizer := (optimizer s)\<lparr>lr := r\<rparr>\<rparr>)"
    and "\<And>s evs. P s \<Longrightarrow> P (s\<lparr>effects := evs\<rparr>)"
  shows "P st \<Longrightarrow> P (state_of (run_epoch c e target patch_dir epoch st))"
proof -
  assume "P st"
  then have p0: "P (st\<lparr>ep_loss := 0\<rparr>)" by (rule assms(2))
  have b: "P (state_of (run_batches c e target epoch [0..<loader_len e] (st\<lparr>ep_loss := 0\<rparr>)))"
  proof (rule run_batches_state_of [where P = P])
    show "\<And>i s s'. P s \<Longrightarrow> batch_step c e target epoch i s = Inr s' \<Longrightarrow> P s'"
      by (rule assms(1))
  qed (fact assms(2) assms(4) p0)+
  show ?thesis
  proof (cases "run_batches c e target epoch [0..<loader_len e] (st\<lparr>ep_loss := 0\<rparr>)")
    case (Inl x)
    then show ?thesis using b by (simp add: run_epoch_def state_of_def)
  next
    case (Inr s1)
    then have p1: "P s1" using b by (simp add: state_of_def)
    show ?thesis
    proof (cases "loader_len e = 0")
      case True
      then show ?thesis using Inr p1 by (simp add: run_epoch_def state_of_def)
    next
      case False
      obtain sch r where sr: "scheduler_step (ep_loss s1 / real (loader_len e))
          (scheduler s1, lr (optimizer s1)) = (sch, r)"
        by fastforce
      have "P (s1\<lparr>ep_loss := ep_loss s1 / real (loader_len e)\<rparr>
                 \<lparr>scheduler := sch,
                  optimizer := (optimizer (s1\<lparr>ep_loss := ep_loss s1 / real (loader_len e)\<rparr>))
                                 \<lparr>lr := r\<rparr>\<rparr>
                 \<lparr>effects := effects s1 @ [SavePatch (osp_join patch_dir
                     (patch_file_name (patch_name c) epoch)) (data (adv_patch_cpu s1))]\<rparr>)"
        by (intro assms(4) assms(3) assms(2) p1)
      then show ?thesis using Inr False sr
        by (simp add: run_epoch_def state_of_def Let_def)
    qed
  qed
qed

lemma run_epochs_state_of:
  assumes "\<And>epoch i s s'. P s \<Longrightarrow> batch_step c e target epoch i s = Inr s' \<Longrightarrow> P s'"
    and "\<And>s x. P s \<Longrightarrow> P (s\<lparr>ep_loss := x\<rparr>)"
    and "\<And>s sch r. P s \<Longrightarrow> P (s\<lparr>scheduler := sch, optimizer := (optimizer s)\<lparr>lr := r\<rparr>\<rparr>)"
    and "\<And>s evs. P s \<Longrightarrow> P (s\<lparr>effects := evs\<rparr>)"
  shows "P st \<Longrightarrow> P (state_of (run_epochs c e target patch_dir epochs st))"
proof (induction epochs arbitrary: st)
  case Nil
  then show ?case by (simp add: state_of_def)
next
  case (Cons epoch rest)
  have s: "P (state_of (run_epoch c e target patch_dir epoch st))"
  proof (rule run_epoch_state_of [where P = P])
    show "\<And>i s s'. P s \<Longrightarrow> batch_step c e target epoch i s = Inr s' \<Longrightarrow> P s'"
      by (rule assms(1))
  qed (fact assms(2) assms(3) assms(4) Cons.prems)+
  show ?case
  proof (cases "run_epoch c e target patch_dir epoch st")
    case (Inl x)
    then show ?thesis using s by (simp add: state_of_def)
  next
    case (Inr s')
    then show ?thesis using s Cons.IH [of s'] by (simp add: state_of_def)
  qed
qed

subsection \<open>The detector\<close>

lemma run_epochs_model_data:
  assumes "opt_params (optimizer st) = [AdvPatch]"
  shows "opt_params (optimizer (state_of (run_epochs c e target patch_dir epochs st))) = [AdvPatch]
         \<and> map data (model (state_of (run_epochs c e target patch_dir epochs st))) = map data (model st)"
proof -
  let ?P = "\<lambda>s. opt_params (optimizer s) = [AdvPatch] \<and> map data (model s) = map data (model st)"
  have "?P (state_of (run_epochs c e target patch_dir epochs st))"
  proof (rule run_epochs_state_of [where P = ?P])
    show "\<And>epoch i s s'. ?P s \<Longrightarrow> batch_step c e target epoch i s = Inr s' \<Longrightarrow> ?P s'"
      using batch_step_fields(1,4) by metis
  qed (simp_all add: assms)
  then show ?thesis .
qed

lemma run_epochs_model_frozen:
  assumes "opt_params (optimizer st) = [AdvPatch]"
    and "list_all (\<lambda>q. \<not> requires_grad q) (model st)"
  shows "model (state_of (run_epochs c e target patch_dir epochs st)) = model st"
proof -
  let ?P = "\<lambda>s. opt_params (optimizer s) = [AdvPatch] \<and> model s = model st"
  have "?P (state_of (run_epochs c e target patch_dir epochs st))"
  proof (rule run_epochs_state_of [where P = ?P])
    show "\<And>epoch i s s'. ?P s \<Longrightarrow> batch_step c e target epoch i s = Inr s' \<Longrightarrow> ?P s'"
      using batch_step_fields(1,7) assms(2) by metis
  qed (simp_all add: assms)
  then show ?thesis by simp
qed

lemma model_of_train_from_patch:
  "model_of (train_from_patch c e target w1) =
     (case init_patch c e of
        Inl err \<Rightarrow> w_model w1
      | Inr t \<Rightarrow> model (state_of (run_epochs c e target (osp_join (log_dir c) ''patches'')
                    [0..<n_epochs c] (start_state c w1 t))))"
  by (simp add: train_from_patch_def Let_def model_of_def state_of_def split: sum.splits prod.splits)

lemma model_of_train:
  "model_of (train c e w) =
     (case fix_loss_target (loss_target c) of
        Inl err \<Rightarrow> w_model w
      | Inr target \<Rightarrow> model_of (train_from_patch c e target
                         (w\<lparr>w_effects := w_effects w @ make_output_dirs c\<rparr>)))"
  by (simp add: train_def Let_def model_of_def split: sum.splits)

lemma start_state_fields:
  "opt_params (optimizer (start_state c w t)) = [AdvPatch]"
  "model (start_state c w t) = w_model w"
  "effects (start_state c w t) = w_effects w"
  "lr (optimizer (start_state c w t)) = start_lr c"
  by (simp_all add: start_state_def)

lemma train_model_data: "map data (model_of (train c e w)) = map data (w_model w)"
  by (simp add: model_of_train model_of_train_from_patch run_epochs_model_data start_state_fields
      split: sum.splits)

lemma train_model_frozen:
  "list_all (\<lambda>q. \<not> requires_grad q) (w_model w) \<Longrightarrow> model_of (train c e w) = w_model w"
  by (simp add: model_of_train model_of_train_from_patch run_epochs_model_frozen start_state_fields
      split: sum.splits)

text \<open>
  Claim C4. Construction switches gradient tracking off for every parameter of the detector,
  and the optimizer is made over the patch alone and stays so: a batch step changes the value
  of no detector parameter, a whole run of \<^verbatim>\<open>train\<close>, however it ends, leaves the values of
  the detector's parameters as they were (even for a detector that was not frozen), and a run
  of \<^verbatim>\<open>main\<close> leaves the parameters exactly as construction froze them, gradients included.
\<close>

theorem detector_frozen:
  "list_all (\<lambda>q. \<not> requires_grad q) (w_model (snd (PatchTrainer_init c e ps)))
   \<and> opt_params (optimizer (start_state c w t)) = [AdvPatch]
   \<and> (opt_params (optimizer st) = [AdvPatch] \<and> batch_step c e target epoch i_batch st = Inr st' \<longrightarrow>
        opt_params (optimizer st') = [AdvPatch] \<and> map data (model st') = map data (model st))
   \<and> map data (model_of (train c e w)) = map data (w_model w)
   \<and> model_of (main c e ps) = map (\<lambda>q. q\<lparr>requires_grad := False\<rparr>) ps"
proof -
  have f: "list_all (\<lambda>q. \<not> requires_grad q) (w_model (snd (PatchTrainer_init c e ps)))"
    by (simp add: PatchTrainer_init_def list_all_iff)
  have m: "model_of (main c e ps) = map (\<lambda>q. q\<lparr>requires_grad := False\<rparr>) ps"
  proof -
    obtain c' w' where i: "PatchTrainer_init c e ps = (c', w')" by fastforce
    then have "list_all (\<lambda>q. \<not> requires_grad q) (w_model w')" using f by simp
    then have "model_of (train c' e w') = w_model w'" by (rule train_model_frozen)
    then show ?thesis using i by (auto simp: main_def PatchTrainer_init_def)
  qed
  show ?thesis
    using f m batch_step_fields(1,4) [of c e target epoch i_batch st st']
    by (simp add: start_state_fields train_model_data)
qed

theorem detector_frozen_witness:
  "opt_params (optimizer demo_state) = [AdvPatch]
   \<and> (case batch_step demo_cfg demo_env (\<lambda>obj cls. obj * cls) 0 0 demo_state of
        Inl x \<Rightarrow> False
      | Inr st' \<Rightarrow> opt_params (optimizer st') = [AdvPatch]
          \<and> map data (model st') = [\<lparr>shape = [1], entries = [Fin 7]\<rparr>])
   \<and> model_of (main demo_cfg demo_env
        [\<lparr>data = \<lparr>shape = [1], entries = [Fin 7]\<rparr>, requires_grad = True, grad = None\<rparr>]) =
      [\<lparr>data = \<lparr>shape = [1], entries = [Fin 7]\<rparr>, requires_grad = False, grad = None\<rparr>]"
proof -
  obtain st' where h: "batch_step demo_cfg demo_env (\<lambda>obj cls. obj * cls) 0 0 demo_state = Inr st'"
    using demo_batch_step by blast
  have a: "opt_params (optimizer st') = [AdvPatch]
          \<and> map data (model st') = [\<lparr>shape = [1], entries = [Fin 7]\<rparr>]"
    using detector_frozen [of demo_cfg demo_env "[]" demo_world "torch_full [3, 1, 2] (Fin (1 / 2))" demo_state
        "\<lambda>obj cls. obj * cls" 0 0 st'] h demo_state_ready
    by (simp add: demo_state_def start_state_def demo_world_def)
  have b: "model_of (main demo_cfg demo_env
        [\<lparr>data = \<lparr>shape = [1], entries = [Fin 7]\<rparr>, requires_grad = True, grad = None\<rparr>]) =
      [\<lparr>data = \<lparr>shape = [1], entries = [Fin 7]\<rparr>, requires_grad = False, grad = None\<rparr>]"
    using detector_frozen [of demo_cfg demo_env
        "[\<lparr>data = \<lparr>shape = [1], entries = [Fin 7]\<rparr>, requires_grad = True, grad = None\<rparr>]"
        demo_world "torch_full [3, 1, 2] (Fin (1 / 2))" demo_state "\<lambda>obj cls. obj * cls" 0 0 st']
    by simp
  show ?thesis using a b by (simp add: h demo_state_ready)
qed

subsection \<open>What a run that returns has written\<close>

lemma batch_step_in_unit_range_or_nan:
  "batch_step c e target epoch i st = Inr st' \<Longrightarrow> in_unit_range_or_nan (data (adv_patch_cpu st'))"
  by (auto simp: batch_step_def Let_def update_patch_in_unit_range_or_nan split: if_splits)

lemma batch_step_events:
  assumes "batch_step c e target epoch i st = Inr st'"
    and "opt_params (optimizer st) = [AdvPatch]"
  shows "saved_patches (effects st') = saved_patches (effects st)"
    and "emission_steps (effects st') =
           emission_steps (effects st) @ (if i mod 15 = 0 then [loader_len e * epoch + i] else [])"
  using batch_step_fields(6) [OF assms]
  by (simp_all add: saved_patches_append emission_steps_append)

lemma run_batches_Inr:
  assumes "run_batches c e target epoch is st = Inr st'"
    and "opt_params (optimizer st) = [AdvPatch]"
  shows "opt_params (optimizer st') = [AdvPatch]
         \<and> saved_patches (effects st') = saved_patches (effects st)
         \<and> emission_steps (effects st') =
             emission_steps (effects st)
             @ map (\<lambda>i. loader_len e * epoch + i) (filter (\<lambda>i. i mod 15 = 0) is)
         \<and> (is \<noteq> [] \<longrightarrow> in_unit_range_or_nan (data (adv_patch_cpu st')))"
  using assms
proof (induction "is" arbitrary: st)
  case Nil
  then show ?case by simp
next
  case (Cons i rest)
  then obtain s where s: "batch_step c e target epoch i st = Inr s"
    and r: "run_batches c e target epoch rest s = Inr st'"
    by (auto split: sum.splits)
  have p: "opt_params (optimizer s) = [AdvPatch]"
    using batch_step_fields(1) [OF s Cons.prems(2)] .
  note ih = Cons.IH [OF r p]
  note ev = batch_step_events [OF s Cons.prems(2)]
  have u: "in_unit_range_or_nan (data (adv_patch_cpu st'))"
  proof (cases rest)
    case Nil
    then have "st' = s" using r by simp
    then show ?thesis using batch_step_in_unit_range_or_nan [OF s] by simp
  next
    case (Cons a list)
    then show ?thesis using ih by simp
  qed
  show ?case using ih ev u by simp
qed

lemma run_epoch_Inr:
  assumes "run_epoch c e target patch_dir epoch st = Inr st'"
    and "opt_params (optimizer st) = [AdvPatch]"
  shows "opt_params (optimizer st') = [AdvPatch]
         \<and> saved_patches (effects st') =
             saved_patches (effects st)
             @ [(osp_join patch_dir (patch_file_name (patch_name c) epoch), data (adv_patch_cpu st'))]
         \<and> emission_steps (effects st') =
             emission_steps (effects st)
             @ map (\<lambda>i. loader_len e * epoch + i) (filter (\<lambda>i. i mod 15 = 0) [0..<loader_len e])
         \<and> in_unit_range_or_nan (data (adv_patch_cpu st'))
         \<and> loader_len e \<noteq> 0"
proof -
  from assms(1) obtain s1 where b: "run_batches c e target epoch [0..<loader_len e] (st\<lparr>ep_loss := 0\<rparr>) = Inr s1"
    by (auto simp: run_epoch_def Let_def split: sum.splits)
  from assms(1) b have l: "loader_len e \<noteq> 0"
    by (auto simp: run_epoch_def Let_def split: if_splits)
  obtain sch r where sr: "scheduler_step (ep_loss s1 / real (loader_len e))
          (scheduler s1, lr (optimizer s1)) = (sch, r)"
    by fastforce
  have st': "st' = s1\<lparr>ep_loss := ep_loss s1 / real (loader_len e)\<rparr>
                 \<lparr>scheduler := sch,
                  optimizer := (optimizer s1)\<lparr>lr := r\<rparr>\<rparr>
                 \<lparr>effects := effects s1 @ [SavePatch (osp_join patch_dir
                     (patch_file_name (patch_name c) epoch)) (data (adv_patch_cpu s1))]\<rparr>"
    using assms(1) b l sr by (simp add: run_epoch_def Let_def)
  have "opt_params (optimizer (st\<lparr>ep_loss := 0\<rparr>)) = [AdvPatch]" using assms(2) by simp
  note rb = run_batches_Inr [OF b this]
  have ne: "[0..<loader_len e] \<noteq> []" using l by simp
  show ?thesis using rb ne l
    by (simp add: st' saved_patches_append emission_steps_append)
qed

lemma run_epochs_Inr:
  assumes "run_epochs c e target patch_dir epochs st = Inr st'"
    and "opt_params (optimizer st) = [AdvPatch]"
  shows "opt_params (optimizer st') = [AdvPatch]
         \<and> (\<exists>ts. length ts = length epochs \<and> list_all in_unit_range_or_nan ts
               \<and> saved_patches (effects st') =
                   saved_patches (effects st)
                   @ zip (map (\<lambda>epoch. osp_join patch_dir (patch_file_name (patch_name c) epoch)) epochs) ts)
         \<and> emission_steps (effects st') =
             emission_steps (effects st)
             @ concat (map (\<lambda>epoch. map (\<lambda>i. loader_len e * epoch + i)
                                       (filter (\<lambda>i. i mod 15 = 0) [0..<loader_len e])) epochs)"
  using assms
proof (induction epochs arbitrary: st)
  case Nil
  then show ?case by simp
next
  case (Cons epoch rest)
  then obtain s where s: "run_epoch c e target patch_dir epoch st = Inr s"
    and r: "run_epochs c e target patch_dir rest s = Inr st'"
    by (auto split: sum.splits)
  note re = run_epoch_Inr [OF s Cons.prems(2)]
  from re have p: "opt_params (optimizer s) = [AdvPatch]" by simp
  note ih = Cons.IH [OF r p]
  from ih obtain ts where ts: "length ts = length rest" "list_all in_unit_range_or_nan ts"
    "saved_patches (effects st') =
       saved_patches (effects s)
       @ zip (map (\<lambda>epoch. osp_join patch_dir (patch_file_name (patch_name c) epoch)) rest) ts"
    by blast
  let ?ts = "data (adv_patch_cpu s) # ts"
  have "length ?ts = length (epoch # rest) \<and> list_all in_unit_range_or_nan ?ts
        \<and> saved_patches (effects st') =
            saved_patches (effects st)
            @ zip (map (\<lambda>epoch. osp_join patch_dir (patch_file_name (patch_name c) epoch)) (epoch # rest)) ?ts"
    using ts re by simp
  then have ex: "\<exists>ts. length ts = length (epoch # rest) \<and> list_all in_unit_range_or_nan ts
        \<and> saved_patches (effects st') =
            saved_patches (effects st)
            @ zip (map (\<lambda>epoch. osp_join patch_dir (patch_file_name (patch_name c) epoch)) (epoch # rest)) ts"
    by (rule exI)
  have em: "emission_steps (effects st') =
             emission_steps (effects st)
             @ concat (map (\<lambda>epoch. map (\<lambda>i. loader_len e * epoch + i)
                                       (filter (\<lambda>i. i mod 15 = 0) [0..<loader_len e])) (epoch # rest))"
    using ih re by simp
  from ih ex em show ?case by blast
qed

lemma emission_schedule_Suc:
  "emission_schedule e (Suc n) =
     emission_schedule e n
     @ map (\<lambda>i. loader_len e * n + i) (filter (\<lambda>i. i mod 15 = 0) [0..<loader_len e])"
  by (simp add: emission_schedule_def)

lemma emission_schedule_bound: "x \<in> set (emission_schedule e n) \<Longrightarrow> x < loader_len e * n"
proof (induction n)
  case 0
  then show ?case by (simp add: emission_schedule_def)
next
  case (Suc n)
  then show ?case
  proof (cases "x \<in> set (emission_schedule e n)")
    case True
    then have "x < loader_len e * n" by (rule Suc.IH)
    then show ?thesis by (simp add: trans_less_add1)
  next
    case False
    then obtain i where "i < loader_len e" "x = loader_len e * n + i"
      using Suc.prems by (auto simp: emission_schedule_Suc)
    then show ?thesis by simp
  qed
qed

lemma emission_schedule_increasing: "sorted_wrt (<) (emission_schedule e n)"
proof (induction n)
  case 0
  then show ?case by (simp add: emission_schedule_def)
next
  case (Suc n)
  have a: "sorted_wrt (<) (map (\<lambda>i. loader_len e * n + i) (filter (\<lambda>i. i mod 15 = 0) [0..<loader_len e]))"
    by (simp add: sorted_wrt_map sorted_wrt_filter)
  have b: "\<forall>x\<in>set (emission_schedule e n).
             \<forall>y\<in>set (map (\<lambda>i. loader_len e * n + i) (filter (\<lambda>i. i mod 15 = 0) [0..<loader_len e])). x < y"
    using emission_schedule_bound [of _ e n] by (auto simp: trans_less_add1)
  show ?case using Suc a b by (simp add: emission_schedule_Suc sorted_wrt_append)
qed

lemma train_Returned:
  assumes "train c e w = Returned st"
  shows "\<exists>target t. fix_loss_target (loss_target c) = Inr target \<and> init_patch c e = Inr t
           \<and> run_epochs c e target (osp_join (log_dir c) ''patches'') [0..<n_epochs c]
                (start_state c (w\<lparr>w_effects := w_effects w @ make_output_dirs c\<rparr>) t) = Inr st"
  using assms
  by (auto simp: train_def train_from_patch_def Let_def split: sum.splits prod.splits)

lemma make_output_dirs_events [simp]:
  "saved_patches (make_output_dirs c) = []" "emission_steps (make_output_dirs c) = []"
  by (simp_all add: make_output_dirs_def)

lemma batch_step_returns:
  "\<not> debug_mode c \<Longrightarrow> \<exists>st'. batch_step c e target epoch i st = Inr st'"
  by (simp add: batch_step_def Let_def)

lemma run_batches_returns:
  "\<not> debug_mode c \<Longrightarrow> \<exists>st'. run_batches c e target epoch is st = Inr st'"
proof (induction "is" arbitrary: st)
  case Nil
  then show ?case by simp
next
  case (Cons i rest)
  obtain s where "batch_step c e target epoch i st = Inr s"
    using batch_step_returns [OF Cons.prems] by blast
  then show ?case using Cons.IH [OF Cons.prems, of s] by simp
qed

lemma run_epoch_returns:
  assumes "\<not> debug_mode c" and "loader_len e \<noteq> 0"
  shows "\<exists>st'. run_epoch c e target patch_dir epoch st = Inr st'"
proof -
  obtain s where "run_batches c e target epoch [0..<loader_len e] (st\<lparr>ep_loss := 0\<rparr>) = Inr s"
    using run_batches_returns [OF assms(1)] by blast
  then show ?thesis using assms(2)
    by (simp add: run_epoch_def Let_def split: prod.splits)
qed

lemma run_epochs_returns:
  assumes "\<not> debug_mode c" and "loader_len e \<noteq> 0"
  shows "\<exists>st'. run_epochs c e target patch_dir epochs st = Inr st'"
proof (induction epochs arbitrary: st)
  case Nil
  then show ?case by simp
next
  case (Cons epoch rest)
  obtain s where "run_epoch c e target patch_dir epoch st = Inr s"
    using run_epoch_returns [OF assms] by blast
  then show ?case using Cons.IH [of s] by simp
qed

lemma train_returns:
  assumes "\<not> debug_mode c" and "loader_len e \<noteq> 0"
    and "fix_loss_target (loss_target c) = Inr target" and "init_patch c e = Inr t"
  shows "\<exists>st. train c e w = Returned st"
proof -
  obtain s where "run_epochs c e target (osp_join (log_dir c) ''patches'') [0..<n_epochs c]
      (start_state c (w\<lparr>w_effects := w_effects w @ make_output_dirs c\<rparr>) t) = Inr s"
    using run_epochs_returns [OF assms(1,2)] by blast
  then show ?thesis using assms(3,4)
    by (simp add: train_def train_from_patch_def Let_def)
qed

lemma demo_main_returns: "\<exists>st. main demo_cfg demo_env ps = Returned st"
  unfolding main_def PatchTrainer_init_def prod.case
  by (rule train_returns [where target = "\<lambda>obj cls. obj * cls" and t = "torch_full [3, 1, 2] (Fin (1 / 2))"])
    (simp_all add: demo_cfg_def demo_env_def fix_loss_target_def init_patch_def generate_patch_def)

lemma long_main_returns: "\<exists>st. main demo_cfg long_env ps = Returned st"
  unfolding main_def PatchTrainer_init_def prod.case
  by (rule train_returns [where target = "\<lambda>obj cls. obj * cls" and t = "torch_full [3, 1, 2] (Fin (1 / 2))"])
    (simp_all add: demo_cfg_def long_env_def demo_env_def fix_loss_target_def init_patch_def generate_patch_def)

lemma demo_run_epoch_returns:
  "\<exists>st'. run_epoch demo_cfg demo_env (\<lambda>obj cls. obj * cls) ''runs/patches'' 0 demo_state = Inr st'"
  by (rule run_epoch_returns) (simp_all add: demo_cfg_def demo_env_def)

lemma main_Returned:
  assumes "main c e ps = Returned st"
  shows "\<exists>target t. run_epochs (c\<lparr>log_dir := osp_join (log_dir c) (strftime e @ ''_'' @ patch_name c)\<rparr>)
            e target
            (osp_join (osp_join (log_dir c) (strftime e @ ''_'' @ patch_name c)) ''patches'')
            [0..<n_epochs c]
            (start_state (c\<lparr>log_dir := osp_join (log_dir c) (strftime e @ ''_'' @ patch_name c)\<rparr>)
               \<lparr>w_model = map (\<lambda>q. q\<lparr>requires_grad := False\<rparr>) ps,
                w_effects = make_output_dirs
                  (c\<lparr>log_dir := osp_join (log_dir c) (strftime e @ ''_'' @ patch_name c)\<rparr>)\<rparr> t) = Inr st"
  using train_Returned [of "c\<lparr>log_dir := osp_join (log_dir c) (strftime e @ ''_'' @ patch_name c)\<rparr>" e
      "\<lparr>w_model = map (\<lambda>q. q\<lparr>requires_grad := False\<rparr>) ps, w_effects = []\<rparr>" st] assms
  by (auto simp: main_def PatchTrainer_init_def)

subsection \<open>File names\<close>

lemma str_nat_not_Nil: "str_nat n \<noteq> []"
  by (subst str_nat.simps) simp

lemma digit_char_inj: "a < 10 \<Longrightarrow> b < 10 \<Longrightarrow> digit_char a = digit_char b \<Longrightarrow> a = b"
proof -
  assume a: "a < 10" and b: "b < 10" and e: "digit_char a = digit_char b"
  have d: "distinct ''0123456789''" by simp
  have l: "length ''0123456789'' = 10" by simp
  from e have "''0123456789'' ! a = ''0123456789'' ! b" by (simp add: digit_char_def)
  then show "a = b" using nth_eq_iff_index_eq [OF d, of a b] a b l by simp
qed

lemma str_nat_inj: "str_nat m = str_nat n \<Longrightarrow> m = n"
proof (induction m arbitrary: n rule: str_nat.induct)
  case (1 m)
  show ?case
  proof (cases "m < 10")
    case True
    have n: "n < 10"
    proof (rule ccontr)
      assume "\<not> n < 10"
      then have "str_nat n = str_nat (n div 10) @ [digit_char (n mod 10)]"
        by (subst str_nat.simps) simp
      moreover have "str_nat m = [digit_char m]" using True by (subst str_nat.simps) simp
      ultimately show False using "1.prems" str_nat_not_Nil [of "n div 10"] by simp
    qed
    have "str_nat m = [digit_char m]" using True by (subst str_nat.simps) simp
    moreover have "str_nat n = [digit_char n]" using n by (subst str_nat.simps) simp
    ultimately show ?thesis using "1.prems" digit_char_inj [OF True n] by simp
  next
    case False
    then have m: "str_nat m = str_nat (m div 10) @ [digit_char (m mod 10)]"
      by (subst str_nat.simps) simp
    have n: "\<not> n < 10"
    proof
      assume "n < 10"
      then have "str_nat n = [digit_char n]" by (subst str_nat.simps) simp
      then show False using m "1.prems" str_nat_not_Nil [of "m div 10"] by simp
    qed
    then have "str_nat n = str_nat (n div 10) @ [digit_char (n mod 10)]"
      by (subst str_nat.simps) simp
    then have eq: "str_nat (m div 10) = str_nat (n div 10)"
      and dg: "digit_char (m mod 10) = digit_char (n mod 10)"
      using m "1.prems" by simp_all
    have "m div 10 = n div 10" using "1.IH" [OF False eq] .
    moreover have "m mod 10 = n mod 10" using digit_char_inj [OF _ _ dg] by simp
    ultimately show ?thesis by (metis div_mult_mod_eq)
  qed
qed

lemma patch_path_inj:
  assumes "osp_join d (patch_file_name name a) = osp_join d (patch_file_name name b)"
  shows "a = b"
proof -
  have h: "hd (patch_file_name name a) = hd (patch_file_name name b)"
    by (cases name) (simp_all add: patch_file_name_def)
  have n: "patch_file_name name a \<noteq> []" "patch_file_name name b \<noteq> []"
    by (simp_all add: patch_file_name_def)
  from assms h n have "patch_file_name name a = patch_file_name name b"
    by (auto simp: osp_join_def split: if_splits)
  then show ?thesis by (simp add: patch_file_name_def str_nat_inj)
qed

lemma patch_paths_distinct:
  "distinct (map (\<lambda>epoch. osp_join d (patch_file_name name epoch)) [0..<n])"
  by (auto simp: distinct_map inj_on_def dest: patch_path_inj)

subsection \<open>The patch images\<close>

text \<open>
  Claim C7. Every epoch that completes writes exactly one image, made from the patch as the
  epoch leaves it (after the clamp of its last batch, so every entry is in the unit
  interval or NaN). A run of \<^verbatim>\<open>main\<close> that returns has written one image per epoch, in the
  order of the epochs, under the name \<^verbatim>\<open>{patch_name}_epoch_{epoch}.jpg\<close> in the run's
  \<^verbatim>\<open>patches\<close> directory; the name depends on the patch name and the epoch only, and no two
  epochs share a path.
\<close>

theorem one_patch_image_per_epoch:
  "(opt_params (optimizer s) = [AdvPatch] \<and> run_epoch c e target patch_dir epoch s = Inr s' \<longrightarrow>
      saved_patches (effects s') =
        saved_patches (effects s)
        @ [(osp_join patch_dir (patch_file_name (patch_name c) epoch), data (adv_patch_cpu s'))]
      \<and> in_unit_range_or_nan (data (adv_patch_cpu s')))
   \<and> (main c e ps = Returned st \<longrightarrow>
      map fst (saved_patches (effects st)) =
        map (\<lambda>epoch. osp_join
                       (osp_join (osp_join (log_dir c) (strftime e @ ''_'' @ patch_name c)) ''patches'')
                       (patch_file_name (patch_name c) epoch))
          [0..<n_epochs c]
      \<and> distinct (map fst (saved_patches (effects st)))
      \<and> list_all in_unit_range_or_nan (map snd (saved_patches (effects st))))"
proof -
  have a: "saved_patches (effects s') =
        saved_patches (effects s)
        @ [(osp_join patch_dir (patch_file_name (patch_name c) epoch), data (adv_patch_cpu s'))]
      \<and> in_unit_range_or_nan (data (adv_patch_cpu s'))"
    if "opt_params (optimizer s) = [AdvPatch]" "run_epoch c e target patch_dir epoch s = Inr s'"
    using run_epoch_Inr [OF that(2) that(1)] by simp
  have b: "map fst (saved_patches (effects st)) =
        map (\<lambda>epoch. osp_join
                       (osp_join (osp_join (log_dir c) (strftime e @ ''_'' @ patch_name c)) ''patches'')
                       (patch_file_name (patch_name c) epoch))
          [0..<n_epochs c]
      \<and> distinct (map fst (saved_patches (effects st)))
      \<and> list_all in_unit_range_or_nan (map snd (saved_patches (effects st)))"
    if "main c e ps = Returned st"
  proof -
    let ?c = "c\<lparr>log_dir := osp_join (log_dir c) (strftime e @ ''_'' @ patch_name c)\<rparr>"
    let ?pd = "osp_join (osp_join (log_dir c) (strftime e @ ''_'' @ patch_name c)) ''patches''"
    let ?w = "\<lparr>w_model = map (\<lambda>q. q\<lparr>requires_grad := False\<rparr>) ps, w_effects = make_output_dirs ?c\<rparr>"
    from main_Returned [OF that] obtain target t where
      r: "run_epochs ?c e target ?pd [0..<n_epochs c] (start_state ?c ?w t) = Inr st"
      by blast
    have p: "opt_params (optimizer (start_state ?c ?w t)) = [AdvPatch]"
      by (simp add: start_state_fields)
    from run_epochs_Inr [OF r p] obtain ts where
      ts: "length ts = length [0..<n_epochs c]" "list_all in_unit_range_or_nan ts"
        "saved_patches (effects st) =
           saved_patches (effects (start_state ?c ?w t))
           @ zip (map (\<lambda>epoch. osp_join ?pd (patch_file_name (patch_name ?c) epoch)) [0..<n_epochs c]) ts"
      by blast
    have s: "saved_patches (effects st) =
           zip (map (\<lambda>epoch. osp_join ?pd (patch_file_name (patch_name c) epoch)) [0..<n_epochs c]) ts"
      using ts(3) by (simp add: start_state_fields)
    have f: "map fst (saved_patches (effects st)) =
           map (\<lambda>epoch. osp_join ?pd (patch_file_name (patch_name c) epoch)) [0..<n_epochs c]"
      unfolding s using ts(1) by simp
    have g: "map snd (saved_patches (effects st)) = ts"
      unfolding s using ts(1) by simp
    show ?thesis using f g ts(2) patch_paths_distinct [of ?pd "patch_name c" "n_epochs c"] by simp
  qed
  show ?thesis using a b by blast
qed

theorem one_patch_image_per_epoch_witness:
  "opt_params (optimizer demo_state) = [AdvPatch]
   \<and> (case run_epoch demo_cfg demo_env (\<lambda>obj cls. obj * cls) ''runs/patches'' 0 demo_state of
        Inl x \<Rightarrow> False
      | Inr s' \<Rightarrow> saved_patches (effects s') = [(''runs/patches/p_epoch_0.jpg'', data (adv_patch_cpu s'))]
          \<and> in_unit_range_or_nan (data (adv_patch_cpu s')))
   \<and> (case main demo_cfg demo_env (w_model demo_world) of
        Returned st \<Rightarrow>
          map fst (saved_patches (effects st)) =
            [''runs/20240101-000000_p/patches/p_epoch_0.jpg'',
             ''runs/20240101-000000_p/patches/p_epoch_1.jpg'']
          \<and> list_all in_unit_range_or_nan (map snd (saved_patches (effects st)))
      | _ \<Rightarrow> False)"
proof -
  obtain s' where h: "run_epoch demo_cfg demo_env (\<lambda>obj cls. obj * cls) ''runs/patches'' 0 demo_state = Inr s'"
    using demo_run_epoch_returns by blast
  obtain st where m: "main demo_cfg demo_env (w_model demo_world) = Returned st"
    using demo_main_returns by blast
  have e: "effects demo_state = []"
    by (simp add: demo_state_def start_state_def demo_world_def)
  have n: "[0..<n_epochs demo_cfg] = [0, 1]"
    by (simp add: demo_cfg_def upt_rec)
  have v: "patch_name demo_cfg = ''p''" "log_dir demo_cfg = ''runs''"
    "strftime demo_env = ''20240101-000000''"
    by (simp_all add: demo_cfg_def demo_env_def)
  have p: "osp_join ''runs/patches'' (patch_file_name ''p'' 0) = ''runs/patches/p_epoch_0.jpg''"
    "osp_join (osp_join (osp_join ''runs'' (''20240101-000000'' @ ''_'' @ ''p'')) ''patches'')
       (patch_file_name ''p'' 0) = ''runs/20240101-000000_p/patches/p_epoch_0.jpg''"
    "osp_join (osp_join (osp_join ''runs'' (''20240101-000000'' @ ''_'' @ ''p'')) ''patches'')
       (patch_file_name ''p'' 1) = ''runs/20240101-000000_p/patches/p_epoch_1.jpg''"
    by (simp_all add: osp_join_def patch_file_name_def digit_char_def)
  have "saved_patches (effects s') = [(''runs/patches/p_epoch_0.jpg'', data (adv_patch_cpu s'))]
        \<and> in_unit_range_or_nan (data (adv_patch_cpu s'))
        \<and> map fst (saved_patches (effects st)) =
            [''runs/20240101-000000_p/patches/p_epoch_0.jpg'',
             ''runs/20240101-000000_p/patches/p_epoch_1.jpg'']
        \<and> list_all in_unit_range_or_nan (map snd (saved_patches (effects st)))"
    using one_patch_image_per_epoch [of demo_state demo_cfg demo_env "\<lambda>obj cls. obj * cls"
        "''runs/patches''" 0 s' "w_model demo_world" st] h m demo_state_ready(1)
    unfolding n v e list.map p
    by simp
  then show ?thesis by (simp add: h m demo_state_ready)
qed

subsection \<open>The metrics\<close>

text \<open>
  Claim C8. A batch step sends records to the writer exactly when the index of the batch in
  its epoch is a multiple of 15, and then it sends, under the step
  \<^verbatim>\<open>epoch_length * epoch + i_batch\<close>, the total loss of the batch and its detection,
  printability and smoothness terms, the epoch, the learning rate, and the patch as the step
  leaves it. Over a run of \<^verbatim>\<open>main\<close> that returns, the steps of the successive emissions are
  those of the batches with an index that is a multiple of 15, epoch after epoch, and they
  are strictly increasing.
\<close>

theorem metrics_every_15_batches:
  "(opt_params (optimizer s) = [AdvPatch] \<and> batch_step c e target epoch i_batch s = Inr s'
    \<and> L = forward_losses c e target epoch i_batch (map data (model s)) (data (adv_patch_cpu s))
    \<and> iteration = loader_len e * epoch + i_batch \<longrightarrow>
      effects s' =
        effects s
        @ (if debug_mode c then [SaveDebugImg (debug_img_path c i_batch)] else [])
        @ (if i_batch mod 15 = 0
           then [AddScalar ''total_loss'' (loss L) iteration,
                 AddScalar ''loss/det_loss'' (det_loss L) iteration,
                 AddScalar ''loss/nps_loss'' (nps_loss L) iteration,
                 AddScalar ''loss/tv_loss'' (tv_loss L) iteration,
                 AddScalar ''misc/epoch'' (real epoch) iteration,
                 AddScalar ''misc/learning_rate'' (lr (optimizer s')) iteration,
                 AddImage ''patch'' (data (adv_patch_cpu s')) iteration]
           else [])
      \<and> lr (optimizer s') = lr (optimizer s))
   \<and> (main c e ps = Returned st \<longrightarrow>
        emission_steps (effects st) = emission_schedule e (n_epochs c)
        \<and> sorted_wrt (<) (emission_steps (effects st)))
   \<and> sorted_wrt (<) (emission_schedule e n)"
proof -
  have a: "effects s' =
        effects s
        @ (if debug_mode c then [SaveDebugImg (debug_img_path c i_batch)] else [])
        @ (if i_batch mod 15 = 0
           then [AddScalar ''total_loss'' (loss L) iteration,
                 AddScalar ''loss/det_loss'' (det_loss L) iteration,
                 AddScalar ''loss/nps_loss'' (nps_loss L) iteration,
                 AddScalar ''loss/tv_loss'' (tv_loss L) iteration,
                 AddScalar ''misc/epoch'' (real epoch) iteration,
                 AddScalar ''misc/learning_rate'' (lr (optimizer s')) iteration,
                 AddImage ''patch'' (data (adv_patch_cpu s')) iteration]
           else [])
      \<and> lr (optimizer s') = lr (optimizer s)"
    if "opt_params (optimizer s) = [AdvPatch]" "batch_step c e target epoch i_batch s = Inr s'"
      "L = forward_losses c e target epoch i_batch (map data (model s)) (data (adv_patch_cpu s))"
      "iteration = loader_len e * epoch + i_batch"
    using batch_step_fields(2,6) [OF that(2) that(1)] that(3,4)
    by (simp add: emit_metrics_def Let_def)
  have b: "emission_steps (effects st) = emission_schedule e (n_epochs c)"
    if "main c e ps = Returned st"
  proof -
    let ?c = "c\<lparr>log_dir := osp_join (log_dir c) (strftime e @ ''_'' @ patch_name c)\<rparr>"
    let ?pd = "osp_join (osp_join (log_dir c) (strftime e @ ''_'' @ patch_name c)) ''patches''"
    let ?w = "\<lparr>w_model = map (\<lambda>q. q\<lparr>requires_grad := False\<rparr>) ps, w_effects = make_output_dirs ?c\<rparr>"
    from main_Returned [OF that] obtain target t where
      r: "run_epochs ?c e target ?pd [0..<n_epochs c] (start_state ?c ?w t) = Inr st"
      by blast
    have p: "opt_params (optimizer (start_state ?c ?w t)) = [AdvPatch]"
      by (simp add: start_state_fields)
    from run_epochs_Inr [OF r p] show ?thesis
      by (simp add: start_state_fields emission_schedule_def)
  qed
  show ?thesis using a b emission_schedule_increasing [of e] by simp
qed

theorem metrics_every_15_batches_witness:
  "opt_params (optimizer demo_state) = [AdvPatch]
   \<and> (case batch_step demo_cfg demo_env (\<lambda>obj cls. obj * cls) 0 0 demo_state of
        Inl x \<Rightarrow> False
      | Inr s' \<Rightarrow>
          effects s' =
            [AddScalar ''total_loss'' (57 / 50) 0,
             AddScalar ''loss/det_loss'' (97 / 200) 0,
             AddScalar ''loss/nps_loss'' (3 / 100) 0,
             AddScalar ''loss/tv_loss'' (5 / 8) 0,
             AddScalar ''misc/epoch'' 0 0,
             AddScalar ''misc/learning_rate'' 1 0,
             AddImage ''patch'' \<lparr>shape = [3, 1, 2], entries = [Fin 0, Fin 0, Fin 0, Fin 0, Fin 0, Fin 0]\<rparr> 0])
   \<and> (case batch_step demo_cfg demo_env (\<lambda>obj cls. obj * cls) 0 1 demo_state of
        Inl x \<Rightarrow> False
      | Inr s' \<Rightarrow> effects s' = [])
   \<and> (case main demo_cfg long_env (w_model demo_world) of
        Returned st \<Rightarrow> emission_steps (effects st) = [0, 15, 16, 31]
      | _ \<Rightarrow> False)"
proof -
  obtain s0 where h0: "batch_step demo_cfg demo_env (\<lambda>obj cls. obj * cls) 0 0 demo_state = Inr s0"
    using demo_batch_step by blast
  obtain s1 where h1: "batch_step demo_cfg demo_env (\<lambda>obj cls. obj * cls) 0 1 demo_state = Inr s1"
    using batch_step_returns [of demo_cfg demo_env "\<lambda>obj cls. obj * cls" 0 1 demo_state]
    by (auto simp: demo_cfg_def)
  obtain st where m: "main demo_cfg long_env (w_model demo_world) = Returned st"
    using long_main_returns by blast
  have e: "effects demo_state = []" "lr (optimizer demo_state) = 1"
    by (simp_all add: demo_state_def start_state_def demo_world_def demo_cfg_def)
  have d: "\<not> debug_mode demo_cfg" by (simp add: demo_cfg_def)
  have L: "forward_losses demo_cfg demo_env (\<lambda>obj cls. obj * cls) 0 0 (map data (model demo_state))
             (data (adv_patch_cpu demo_state)) =
           \<lparr>max_prob = [18 / 25, 1 / 4], nps = Some 3, tv = Some (1 / 4), nps_loss = 3 / 100,
            tv_loss = 5 / 8, det_loss = 97 / 200, loss = 57 / 50\<rparr>"
    by (simp add: forward_losses_def Let_def demo_cfg_def demo_env_def demo_state_def
        start_state_def torch_full_def torch_mean_def tensor_value_def)
  have a: "effects s0 =
            [AddScalar ''total_loss'' (57 / 50) 0,
             AddScalar ''loss/det_loss'' (97 / 200) 0,
             AddScalar ''loss/nps_loss'' (3 / 100) 0,
             AddScalar ''loss/tv_loss'' (5 / 8) 0,
             AddScalar ''misc/epoch'' 0 0,
             AddScalar ''misc/learning_rate'' 1 0,
             AddImage ''patch'' \<lparr>shape = [3, 1, 2], entries = [Fin 0, Fin 0, Fin 0, Fin 0, Fin 0, Fin 0]\<rparr> 0]"
    using metrics_every_15_batches [of demo_state demo_cfg demo_env "\<lambda>obj cls. obj * cls" 0 0 s0
        "forward_losses demo_cfg demo_env (\<lambda>obj cls. obj * cls) 0 0 (map data (model demo_state))
             (data (adv_patch_cpu demo_state))" 0 "w_model demo_world" st 2]
      h0 demo_state_ready(1) d
    unfolding L by (simp add: e demo_batch_step_data [OF h0])
  have b: "effects s1 = []"
    using metrics_every_15_batches [of demo_state demo_cfg demo_env "\<lambda>obj cls. obj * cls" 0 1 s1
        "forward_losses demo_cfg demo_env (\<lambda>obj cls. obj * cls) 0 1 (map data (model demo_state))
             (data (adv_patch_cpu demo_state))" "loader_len demo_env * 0 + 1" "w_model demo_world" st 2]
      h1 demo_state_ready(1) d
    by (simp add: e)
  have n: "n_epochs demo_cfg = 2" by (simp add: demo_cfg_def)
  have sch: "emission_schedule long_env 2 = [0, 15, 16, 31]"
    by (simp add: emission_schedule_def long_env_def demo_env_def upt_rec)
  have c: "emission_steps (effects st) = [0, 15, 16, 31]"
    using metrics_every_15_batches [of demo_state demo_cfg long_env "\<lambda>obj cls. obj * cls" 0 0 s0
        "forward_losses demo_cfg long_env (\<lambda>obj cls. obj * cls) 0 0 (map data (model demo_state))
             (data (adv_patch_cpu demo_state))" 0 "w_model demo_world" st 2] m
    unfolding n sch by simp
  show ?thesis using a b c h0 h1 m demo_state_ready(1) by simp
qed

subsection \<open>The learning-rate scheduler\<close>

lemma run_batches_ep_loss:
  assumes "run_batches c e target epoch is st = Inr st'"
    and "opt_params (optimizer st) = [AdvPatch]"
  shows "ep_loss st' = ep_loss st + sum_list (epoch_losses c e target epoch is st)
         \<and> length (epoch_losses c e target epoch is st) = length is
         \<and> scheduler st' = scheduler st
         \<and> lr (optimizer st') = lr (optimizer st)"
  using assms
proof (induction "is" arbitrary: st)
  case Nil
  then show ?case by simp
next
  case (Cons i rest)
  then obtain s where s: "batch_step c e target epoch i st = Inr s"
    and r: "run_batches c e target epoch rest s = Inr st'"
    by (auto split: sum.splits)
  note f = batch_step_fields(1,2,3,5) [OF s Cons.prems(2)]
  note ih = Cons.IH [OF r f(1)]
  show ?case using ih f s by simp
qed

lemma run_epoch_scheduler:
  assumes "run_epoch c e target patch_dir epoch st = Inr st'"
    and "opt_params (optimizer st) = [AdvPatch]"
  shows "ep_loss st' =
           sum_list (epoch_losses c e target epoch [0..<loader_len e] (st\<lparr>ep_loss := 0\<rparr>))
           / real (loader_len e)
         \<and> length (epoch_losses c e target epoch [0..<loader_len e] (st\<lparr>ep_loss := 0\<rparr>)) = loader_len e
         \<and> (scheduler st', lr (optimizer st')) =
             scheduler_step (ep_loss st') (scheduler st, lr (optimizer st))"
proof -
  from assms(1) obtain s1 where b: "run_batches c e target epoch [0..<loader_len e] (st\<lparr>ep_loss := 0\<rparr>) = Inr s1"
    by (auto simp: run_epoch_def Let_def split: sum.splits)
  from assms(1) b have l: "loader_len e \<noteq> 0"
    by (auto simp: run_epoch_def Let_def split: if_splits)
  obtain sch r where sr: "scheduler_step (ep_loss s1 / real (loader_len e))
          (scheduler s1, lr (optimizer s1)) = (sch, r)"
    by fastforce
  have st': "st' = s1\<lparr>ep_loss := ep_loss s1 / real (loader_len e)\<rparr>
                 \<lparr>scheduler := sch,
                  optimizer := (optimizer s1)\<lparr>lr := r\<rparr>\<rparr>
                 \<lparr>effects := effects s1 @ [SavePatch (osp_join patch_dir
                     (patch_file_name (patch_name c) epoch)) (data (adv_patch_cpu s1))]\<rparr>"
    using assms(1) b l sr by (simp add: run_epoch_def Let_def)
  have "opt_params (optimizer (st\<lparr>ep_loss := 0\<rparr>)) = [AdvPatch]" using assms(2) by simp
  note rb = run_batches_ep_loss [OF b this]
  show ?thesis using rb sr by (simp add: st')
qed




lemma epoch_losses_const:
  assumes "\<not> debug_mode c" and "\<And>i ws p. batch_loss c e target epoch i ws p = K"
  shows "epoch_losses c e target epoch is st = replicate (length is) K"
proof (induction "is" arbitrary: st)
  case Nil
  then show ?case by simp
next
  case (Cons i rest)
  obtain s where "batch_step c e target epoch i st = Inr s"
    using batch_step_returns [OF assms(1)] by blast
  then show ?case using Cons.IH [of s] assms(2) by simp
qed

lemma run_epochs_scheduler_const:
  assumes "\<not> debug_mode c" and "\<And>epoch i ws p. batch_loss c e target epoch i ws p = K"
    and "run_epochs c e target patch_dir epochs st = Inr st'"
    and "opt_params (optimizer st) = [AdvPatch]"
  shows "(scheduler st', lr (optimizer st')) =
           feed_scheduler (replicate (length epochs) K) (scheduler st, lr (optimizer st))"
  using assms(3,4)
proof (induction epochs arbitrary: st)
  case Nil
  then show ?case by (simp add: feed_scheduler_def)
next
  case (Cons epoch rest)
  then obtain s where s: "run_epoch c e target patch_dir epoch st = Inr s"
    and r: "run_epochs c e target patch_dir rest s = Inr st'"
    by (auto split: sum.splits)
  note re = run_epoch_Inr [OF s Cons.prems(2)]
  from re have p: "opt_params (optimizer s) = [AdvPatch]" and l: "loader_len e \<noteq> 0" by simp_all
  note sc = run_epoch_scheduler [OF s Cons.prems(2)]
  have "epoch_losses c e target epoch [0..<loader_len e] (st\<lparr>ep_loss := 0\<rparr>) =
          replicate (loader_len e) K"
    using epoch_losses_const [OF assms(1), of e target epoch K "[0..<loader_len e]"] assms(2)
    by simp
  then have k: "ep_loss s = K" using sc l by (simp add: sum_list_replicate)
  have "(scheduler s, lr (optimizer s)) = scheduler_step K (scheduler st, lr (optimizer st))"
    using sc k by simp
  then show ?case using Cons.IH [OF r p] by (simp add: feed_scheduler_def)
qed









subsection \<open>The loss target\<close>

lemma flat_batch_loss_target:
  "batch_loss (demo_cfg\<lparr>loss_target := lt\<rparr>) flat_env target epoch i ws p =
     (target (9 / 10) (8 / 10) + target (1 / 2) (1 / 2)) / 2 + 131 / 200"
  by (simp add: batch_loss_def forward_losses_def Let_def demo_cfg_def flat_env_def demo_env_def
      torch_mean_def tensor_value_def)

lemma flat_train_from_patch:
  assumes "K = (target (9 / 10) (8 / 10) + target (1 / 2) (1 / 2)) / 2 + 131 / 200" and "0 < K"
  shows "\<exists>st. train_from_patch (demo_cfg\<lparr>loss_target := lt\<rparr>) flat_env target w1 = Returned st
              \<and> scheduler st = \<lparr>best = Some K, num_bad_epochs = 1, patience = 50\<rparr>"
proof -
  let ?c = "demo_cfg\<lparr>loss_target := lt\<rparr>"
  let ?t = "torch_full [3, 1, 2] (Fin (1 / 2))"
  have d: "\<not> debug_mode ?c" by (simp add: demo_cfg_def)
  have l: "loader_len flat_env \<noteq> 0" by (simp add: flat_env_def demo_env_def)
  have i: "init_patch ?c flat_env = Inr ?t"
    by (simp add: init_patch_def generate_patch_def demo_cfg_def)
  obtain st where r: "run_epochs ?c flat_env target (osp_join (log_dir ?c) ''patches'')
      [0..<n_epochs ?c] (start_state ?c w1 ?t) = Inr st"
    using run_epochs_returns [OF d l] by blast
  have t: "train_from_patch ?c flat_env target w1 = Returned st"
    unfolding train_from_patch_def Let_def i using r by simp
  have rp: "replicate (length [0..<n_epochs ?c]) K = [K, K]"
    by (simp add: demo_cfg_def eval_nat_numeral)
  have st0: "scheduler (start_state ?c w1 ?t) = \<lparr>best = None, num_bad_epochs = 0, patience = 50\<rparr>"
    by (simp add: start_state_def)
  have fd: "feed_scheduler [K, K] (\<lparr>best = None, num_bad_epochs = 0, patience = 50\<rparr>, r) =
          (\<lparr>best = Some K, num_bad_epochs = 1, patience = 50\<rparr>, r)" for r
    using assms(2) by (simp add: feed_scheduler_def scheduler_step_def is_better_def Let_def)
  have "(scheduler st, lr (optimizer st)) =
          feed_scheduler (replicate (length [0..<n_epochs ?c]) K)
            (scheduler (start_state ?c w1 ?t), lr (optimizer (start_state ?c w1 ?t)))"
    by (rule run_epochs_scheduler_const [OF d _ r])
      (simp_all add: flat_batch_loss_target assms(1) start_state_fields)
  then have "scheduler st = \<lparr>best = Some K, num_bad_epochs = 1, patience = 50\<rparr>"
    unfolding rp st0 fd by simp
  then show ?thesis using t by blast
qed

text \<open>
  Claim C3. The configured loss-target string selects exactly one of the three combination
  rules, once, before the patch is made: with \<^verbatim>\<open>obj\<close> the whole of \<^verbatim>\<open>train\<close> after the
  selection (patch initialization and every batch of every epoch) runs with the objectness
  rule, with \<^verbatim>\<open>cls\<close> with the class-score rule, with \<^verbatim>\<open>obj * cls\<close> with their product, and
  the three rules are different functions. For every other string \<^verbatim>\<open>train\<close> raises
  \<^verbatim>\<open>NotImplementedError\<close> having only created the output directories and dumped the
  configuration: no patch, optimizer or scheduler exists yet and no optimization step has
  run.
\<close>

theorem loss_target_dispatch:
  "(loss_target c = ''obj'' \<longrightarrow>
      train c e w = train_from_patch c e (\<lambda>obj cls. obj) (w\<lparr>w_effects := w_effects w @ make_output_dirs c\<rparr>))
   \<and> (loss_target c = ''cls'' \<longrightarrow>
      train c e w = train_from_patch c e (\<lambda>obj cls. cls) (w\<lparr>w_effects := w_effects w @ make_output_dirs c\<rparr>))
   \<and> (loss_target c = ''obj * cls'' \<longrightarrow>
      train c e w = train_from_patch c e (\<lambda>obj cls. obj * cls) (w\<lparr>w_effects := w_effects w @ make_output_dirs c\<rparr>))
   \<and> (loss_target c \<notin> {''obj'', ''cls'', ''obj * cls''} \<longrightarrow>
        train c e w =
          Raised (NotImplementedError (''Loss target '' @ loss_target c @ '' not been implemented''))
            (w\<lparr>w_effects := w_effects w @ make_output_dirs c\<rparr>))
   \<and> (\<lambda>obj cls. obj) \<noteq> (\<lambda>obj cls :: real. cls)
   \<and> (\<lambda>obj cls. obj) \<noteq> (\<lambda>obj cls :: real. obj * cls)
   \<and> (\<lambda>obj cls. cls) \<noteq> (\<lambda>obj cls :: real. obj * cls)"
proof -
  have "(\<lambda>obj cls. obj) (1 :: real) (0 :: real) \<noteq> (\<lambda>obj cls. cls) 1 0" by simp
  then have a: "(\<lambda>obj cls. obj) \<noteq> (\<lambda>obj cls :: real. cls)" by metis
  have "(\<lambda>obj cls. obj) (1 :: real) (0 :: real) \<noteq> (\<lambda>obj cls. obj * cls) 1 0" by simp
  then have b: "(\<lambda>obj cls. obj) \<noteq> (\<lambda>obj cls :: real. obj * cls)" by metis
  have "(\<lambda>obj cls. cls) (0 :: real) (1 :: real) \<noteq> (\<lambda>obj cls. obj * cls) 0 1" by simp
  then have c: "(\<lambda>obj cls. cls) \<noteq> (\<lambda>obj cls :: real. obj * cls)" by metis
  show ?thesis
    using a b c by (simp add: fix_loss_target_def train_def Let_def)
qed

text \<open>On the detections of the small run (objectness 0.9 and 0.5, class score 0.8 and 0.5)
  the three strings give three different epoch losses, which the scheduler records as its
  best value: 0.7, 0.65 and 0.485, each plus 0.655 for the two other terms.\<close>

theorem loss_target_dispatch_witness:
  "loss_target obj_cfg = ''obj'' \<and> loss_target cls_cfg = ''cls'' \<and> loss_target demo_cfg = ''obj * cls''
   \<and> loss_target bad_target_cfg \<notin> {''obj'', ''cls'', ''obj * cls''}
   \<and> best (scheduler (the (returned (train obj_cfg flat_env demo_world)))) = Some (271 / 200)
   \<and> best (scheduler (the (returned (train cls_cfg flat_env demo_world)))) = Some (261 / 200)
   \<and> best (scheduler (the (returned (train demo_cfg flat_env demo_world)))) = Some (57 / 50)
   \<and> train bad_target_cfg flat_env demo_world =
       Raised (NotImplementedError ''Loss target objectness not been implemented'')
         \<lparr>w_model = w_model demo_world,
          w_effects = [MakeDirs ''runs/patches'', DumpJson ''runs/cfg.json'']\<rparr>"
proof -
  have h: "loss_target obj_cfg = ''obj''" "loss_target cls_cfg = ''cls''"
    "loss_target demo_cfg = ''obj * cls''"
    "loss_target bad_target_cfg \<notin> {''obj'', ''cls'', ''obj * cls''}"
    by (simp_all add: obj_cfg_def cls_cfg_def bad_target_cfg_def demo_cfg_def)
  have w: "demo_world\<lparr>w_effects := w_effects demo_world @ make_output_dirs bad_target_cfg\<rparr> =
             \<lparr>w_model = w_model demo_world,
              w_effects = [MakeDirs ''runs/patches'', DumpJson ''runs/cfg.json'']\<rparr>"
    by (simp add: bad_target_cfg_def demo_cfg_def demo_world_def make_output_dirs_def osp_join_def)
  have m: "''Loss target '' @ loss_target bad_target_cfg @ '' not been implemented'' =
           ''Loss target objectness not been implemented''"
    by (simp add: bad_target_cfg_def)
  have c: "demo_cfg = demo_cfg\<lparr>loss_target := ''obj * cls''\<rparr>" by (simp add: demo_cfg_def)
  obtain s1 where s1: "train_from_patch obj_cfg flat_env (\<lambda>obj cls. obj)
        (demo_world\<lparr>w_effects := w_effects demo_world @ make_output_dirs obj_cfg\<rparr>) = Returned s1"
      "scheduler s1 = \<lparr>best = Some (271 / 200), num_bad_epochs = 1, patience = 50\<rparr>"
    using flat_train_from_patch [of "271 / 200" "\<lambda>obj cls. obj" "''obj''"]
    unfolding obj_cfg_def by auto
  obtain s2 where s2: "train_from_patch cls_cfg flat_env (\<lambda>obj cls. cls)
        (demo_world\<lparr>w_effects := w_effects demo_world @ make_output_dirs cls_cfg\<rparr>) = Returned s2"
      "scheduler s2 = \<lparr>best = Some (261 / 200), num_bad_epochs = 1, patience = 50\<rparr>"
    using flat_train_from_patch [of "261 / 200" "\<lambda>obj cls. cls" "''cls''"]
    unfolding cls_cfg_def by auto
  obtain s3 where s3: "train_from_patch demo_cfg flat_env (\<lambda>obj cls. obj * cls)
        (demo_world\<lparr>w_effects := w_effects demo_world @ make_output_dirs demo_cfg\<rparr>) = Returned s3"
      "scheduler s3 = \<lparr>best = Some (57 / 50), num_bad_epochs = 1, patience = 50\<rparr>"
    using flat_train_from_patch [of "57 / 50" "\<lambda>obj cls. obj * cls" "''obj * cls''"
        "demo_world\<lparr>w_effects := w_effects demo_world @ make_output_dirs demo_cfg\<rparr>"]
    unfolding c [symmetric] by auto
  have a: "train obj_cfg flat_env demo_world = Returned s1"
    using loss_target_dispatch [of obj_cfg flat_env demo_world] h(1) s1(1) by simp
  have b: "train cls_cfg flat_env demo_world = Returned s2"
    using loss_target_dispatch [of cls_cfg flat_env demo_world] h(2) s2(1) by simp
  have d: "train demo_cfg flat_env demo_world = Returned s3"
    using loss_target_dispatch [of demo_cfg flat_env demo_world] h(3) s3(1) by simp
  have e: "train bad_target_cfg flat_env demo_world =
       Raised (NotImplementedError ''Loss target objectness not been implemented'')
         \<lparr>w_model = w_model demo_world,
          w_effects = [MakeDirs ''runs/patches'', DumpJson ''runs/cfg.json'']\<rparr>"
    using loss_target_dispatch [of bad_target_cfg flat_env demo_world] h(4)
    unfolding w m by simp
  show ?thesis using h e by (simp add: a b d returned_def s1(2) s2(2) s3(2))
qed

end
